theory Spec2Isabelle
  imports Main "HOL-Library.Word" "HOL-Library.Multiset"
begin

section \<open>JavaScript strings\<close>

text \<open>
  A JavaScript string is a sequence of UTF-16 code units; \<open>length\<close>, \<open>slice\<close>, \<open>trim\<close> and
  the regular expressions of \<open>server.js\<close> (none has the \<open>u\<close> flag) all work on code units.
  File contents are sequences of bytes. Messages of the server and of the record store
  are ASCII and are kept as HOL strings.
\<close>

type_synonym jschar = "16 word"
type_synonym jsstring = "jschar list"
type_synonym byte = "8 word"

definition js :: "string \<Rightarrow> jsstring" where
  "js s = map (\<lambda>c. of_nat (of_char c)) s"

text \<open>The character class \<open>[\x00-\x1F\x7F]\<close>.\<close>

definition is_ctrl :: "jschar \<Rightarrow> bool" where
  "is_ctrl c \<longleftrightarrow> c \<le> 0x1F \<or> c = 0x7F"

text \<open>
  The class \<open>\s\<close> of ECMAScript, which is also what \<open>String.prototype.trim\<close> strips:
  TAB, LF, VT, FF, CR, SPACE, NBSP, U+1680, U+2000..U+200A, U+2028, U+2029, U+202F,
  U+205F, U+3000, U+FEFF.
\<close>

definition is_ws :: "jschar \<Rightarrow> bool" where
  "is_ws c \<longleftrightarrow>
     (0x09 \<le> c \<and> c \<le> 0x0D) \<or> c = 0x20 \<or> c = 0xA0 \<or> c = 0x1680 \<or>
     (0x2000 \<le> c \<and> c \<le> 0x200A) \<or> c = 0x2028 \<or> c = 0x2029 \<or> c = 0x202F \<or>
     c = 0x205F \<or> c = 0x3000 \<or> c = 0xFEFF"

definition trim :: "jsstring \<Rightarrow> jsstring" where
  "trim s = rev (dropWhile is_ws (rev (dropWhile is_ws s)))"

text \<open>\<open>s.replace(/[\x00-\x1F\x7F]/g, '')\<close>\<close>

definition strip_ctrl :: "jsstring \<Rightarrow> jsstring" where
  "strip_ctrl s = filter (\<lambda>c. \<not> is_ctrl c) s"

text \<open>\<open>s.replace(/\s+/g, ' ')\<close>: every maximal run of whitespace becomes one space.\<close>

function collapse_ws :: "jsstring \<Rightarrow> jsstring" where
  "collapse_ws [] = []"
| "collapse_ws (c # cs) =
     (if is_ws c then 0x20 # collapse_ws (dropWhile is_ws cs) else c # collapse_ws cs)"
  by pat_completeness auto
termination
  by (relation "measure length") (auto simp: length_dropWhile_le less_Suc_eq_le)

text \<open>
  \<open>/\.pdf$/i.test(s)\<close>. Without the \<open>u\<close> flag a code unit above 127 never matches an
  ASCII letter case-insensitively, so the three letters are exactly p/P, d/D, f/F.
\<close>

definition ends_with_pdf :: "jsstring \<Rightarrow> bool" where
  "ends_with_pdf s \<longleftrightarrow>
     (case rev s of
        f # d # p # dot # _ \<Rightarrow>
          dot = 0x2E \<and> (p = 0x70 \<or> p = 0x50) \<and> (d = 0x64 \<or> d = 0x44) \<and> (f = 0x66 \<or> f = 0x46)
      | _ \<Rightarrow> False)"

text \<open>\<open>s.replace(/^[.\s]+/, '')\<close>\<close>

definition strip_leading :: "jsstring \<Rightarrow> jsstring" where
  "strip_leading s = dropWhile (\<lambda>c. c = 0x2E \<or> is_ws c) s"

text \<open>\<open>msg.includes(pat)\<close> on messages.\<close>

fun str_includes :: "string \<Rightarrow> string \<Rightarrow> bool" where
  "str_includes [] pat = (pat = [])"
| "str_includes (c # cs) pat = (take (length pat) (c # cs) = pat \<or> str_includes cs pat)"

text \<open>Rendering of a number by a template literal (decimal) and by \<open>toString(16)\<close>.\<close>

definition digit_char :: "nat \<Rightarrow> jschar" where
  "digit_char d = (if d < 10 then 0x30 + of_nat d else 0x57 + of_nat d)"

fun to_decimal :: "nat \<Rightarrow> jsstring" where
  "to_decimal n = (if n < 10 then [digit_char n] else to_decimal (n div 10) @ [digit_char (n mod 10)])"

fun to_hex :: "nat \<Rightarrow> jsstring" where
  "to_hex n = (if n < 16 then [digit_char n] else to_hex (n div 16) @ [digit_char (n mod 16)])"

declare to_decimal.simps [simp del] to_hex.simps [simp del]

section \<open>The platform under \<open>server.js\<close>\<close>

text \<open>
  \<open>String.prototype.normalize('NFC')\<close> and the \<open>sanitize-filename\<close> package are not part
  of the repository, and \<open>__dirname\<close> is fixed by the deployment. The server code takes
  the three as parameters, so that what is proved of it holds whatever they are.
\<close>

record platform =
  normalize_NFC :: "jsstring \<Rightarrow> jsstring"
  sanitize :: "jsstring \<Rightarrow> jsstring"
  dirname :: jsstring

text \<open>
  A model of \<open>sanitize-filename\<close> with the default (empty) replacement, used where a concrete
  input is evaluated. In the package's order: remove slash, question mark, angle brackets,
  backslash, colon, asterisk, bar and double quote; remove the control characters \<open>[\x00-\x1f\x80-\x9f]\<close>; a name made of dots only becomes empty; a
  reserved Windows device name (with any extension) becomes empty; trailing dots and spaces
  are removed; the result is cut to 255 bytes of UTF-8 without splitting a surrogate pair.
\<close>

definition is_illegal :: "jschar \<Rightarrow> bool" where
  "is_illegal c \<longleftrightarrow> c \<in> set [0x2F, 0x3F, 0x3C, 0x3E, 0x5C, 0x3A, 0x2A, 0x7C, 0x22]"

definition is_lib_ctrl :: "jschar \<Rightarrow> bool" where
  "is_lib_ctrl c \<longleftrightarrow> c \<le> 0x1F \<or> (0x80 \<le> c \<and> c \<le> 0x9F)"

definition reserved_dots :: "jsstring \<Rightarrow> jsstring" where
  "reserved_dots s = (if s \<noteq> [] \<and> (\<forall>c \<in> set s. c = 0x2E) then [] else s)"

definition ascii_lower :: "jschar \<Rightarrow> jschar" where
  "ascii_lower c = (if 0x41 \<le> c \<and> c \<le> 0x5A then c + 0x20 else c)"

definition is_line_terminator :: "jschar \<Rightarrow> bool" where
  "is_line_terminator c \<longleftrightarrow> c = 0x0A \<or> c = 0x0D \<or> c = 0x2028 \<or> c = 0x2029"

text \<open>\<open>/^(con|prn|aux|nul|com[0-9]|lpt[0-9])(\..*)?$/i\<close>\<close>

definition device_tail :: "jsstring \<Rightarrow> bool" where
  "device_tail r \<longleftrightarrow>
     (case r of [] \<Rightarrow> True
      | c # cs \<Rightarrow> c = 0x2E \<and> (\<forall>x \<in> set cs. \<not> is_line_terminator x))"

definition is_digit :: "jschar \<Rightarrow> bool" where
  "is_digit c \<longleftrightarrow> 0x30 \<le> c \<and> c \<le> 0x39"

definition windows_reserved :: "jsstring \<Rightarrow> bool" where
  "windows_reserved s \<longleftrightarrow>
     (take 3 (map ascii_lower s) \<in> set [js ''con'', js ''prn'', js ''aux'', js ''nul''] \<and>
        device_tail (drop 3 s)) \<or>
     (take 3 (map ascii_lower s) \<in> set [js ''com'', js ''lpt''] \<and> 4 \<le> length s \<and>
        is_digit (s ! 3) \<and> device_tail (drop 4 s))"

definition strip_windows_trailing :: "jsstring \<Rightarrow> jsstring" where
  "strip_windows_trailing s = rev (dropWhile (\<lambda>c. c = 0x2E \<or> c = 0x20) (rev s))"

definition utf8_len :: "jschar \<Rightarrow> nat" where
  "utf8_len c = (if c < 0x80 then 1 else if c < 0x800 then 2 else 3)"

definition is_high_surrogate :: "jschar \<Rightarrow> bool" where
  "is_high_surrogate c \<longleftrightarrow> 0xD800 \<le> c \<and> c \<le> 0xDBFF"

definition is_low_surrogate :: "jschar \<Rightarrow> bool" where
  "is_low_surrogate c \<longleftrightarrow> 0xDC00 \<le> c \<and> c \<le> 0xDFFF"

fun truncate_utf8 :: "nat \<Rightarrow> jsstring \<Rightarrow> jsstring" where
  "truncate_utf8 b [] = []"
| "truncate_utf8 b [c] = (if utf8_len c \<le> b then [c] else [])"
| "truncate_utf8 b (c # d # ds) =
     (if is_high_surrogate c \<and> is_low_surrogate d
      then (if 4 \<le> b then c # d # truncate_utf8 (b - 4) ds else [])
      else (if utf8_len c \<le> b then c # truncate_utf8 (b - utf8_len c) (d # ds) else []))"

definition reserved_device :: "jsstring \<Rightarrow> jsstring" where
  "reserved_device s = (if windows_reserved s then [] else s)"

definition sanitize_filename :: "jsstring \<Rightarrow> jsstring" where
  "sanitize_filename s =
     truncate_utf8 255
       (strip_windows_trailing
          (reserved_device
             (reserved_dots
                (filter (\<lambda>c. \<not> is_lib_ctrl c) (filter (\<lambda>c. \<not> is_illegal c) s)))))"

text \<open>
  NFC leaves a string of ASCII characters as it is; \<open>ascii_platform\<close> is used at ASCII
  inputs only.
\<close>

definition ascii_platform :: platform where
  "ascii_platform =
     \<lparr>normalize_NFC = (\<lambda>s. s), sanitize = sanitize_filename, dirname = js ''/srv/app''\<rparr>"

section \<open>\<open>storage.filename\<close>: the filename sanitizer and the unique name\<close>

definition MAX_NAME_LEN :: nat where
  "MAX_NAME_LEN = 200"

text \<open>
  The variable \<open>original\<close> after lines 82 to 86: \<open>file.originalname || 'file'\<close>, normalised,
  control characters removed, trimmed.
\<close>

definition clean_original :: "platform \<Rightarrow> jsstring \<Rightarrow> jsstring" where
  "clean_original P originalname =
     trim (strip_ctrl (normalize_NFC P (if originalname = [] then js ''file'' else originalname)))"

text \<open>Line 92: \<open>if (!safeOriginal) safeOriginal = 'file.pdf'\<close>.\<close>

definition fallback_name :: "jsstring \<Rightarrow> jsstring" where
  "fallback_name s = (if s = [] then js ''file.pdf'' else s)"

text \<open>Line 95: \<open>if (!/\.pdf$/i.test(safeOriginal)) safeOriginal = safeOriginal + '.pdf'\<close>.\<close>

definition ensure_pdf :: "jsstring \<Rightarrow> jsstring" where
  "ensure_pdf s = (if ends_with_pdf s then s else s @ js ''.pdf'')"

text \<open>The variable \<open>safeOriginal\<close> after lines 89 to 98.\<close>

definition safeOriginal :: "platform \<Rightarrow> jsstring \<Rightarrow> jsstring" where
  "safeOriginal P original =
     strip_leading
       (ensure_pdf
          (fallback_name (take MAX_NAME_LEN (trim (collapse_ws (sanitize P original))))))"

text \<open>
  \<open>Math.random()\<close> returns a double \<open>r\<close> with \<open>0 \<le> r < 1\<close>: every such number is
  \<open>mantissa / 2 ^ exponent\<close> for a mantissa below \<open>2 ^ 53\<close> and an exponent of at most 1074.
\<close>

record double =
  mantissa :: nat
  exponent :: nat

definition unit_double :: "double \<Rightarrow> bool" where
  "unit_double d \<longleftrightarrow>
     mantissa d < 2 ^ 53 \<and> mantissa d < 2 ^ exponent d \<and> exponent d \<le> 1074"

text \<open>The number of binary digits of a number.\<close>

fun bit_length :: "nat \<Rightarrow> nat" where
  "bit_length n = (if n = 0 then 0 else Suc (bit_length (n div 2)))"

declare bit_length.simps [simp del]

text \<open>The multiple of \<open>u\<close> nearest to \<open>n\<close>; of two equally near, the even multiple.\<close>

definition round_to_multiple :: "nat \<Rightarrow> nat \<Rightarrow> nat" where
  "round_to_multiple u n =
     (if u < 2 * (n mod u) \<or> (u = 2 * (n mod u) \<and> odd (n div u)) then (n div u + 1) * u
      else (n div u) * u)"

text \<open>Rounding to 53 significant binary digits, as a multiplication of doubles does.\<close>

definition round_to_53_bits :: "nat \<Rightarrow> nat" where
  "round_to_53_bits n =
     (if bit_length n \<le> 53 then n else round_to_multiple (2 ^ (bit_length n - 53)) n)"

text \<open>
  \<open>Math.floor(Math.random() * 1e9)\<close>. The product of the doubles \<open>mantissa / 2 ^ exponent\<close>
  and \<open>1e9\<close> is the exact product rounded to 53 significant digits, ties to even, here
  written over the common denominator \<open>2 ^ exponent\<close>; \<open>Math.floor\<close> takes its integer part.
  (A product below \<open>2 ^ -1022\<close> is rounded more coarsely by the machine; it and its
  rounding are below 1 either way, so the integer part is 0.)
\<close>

definition salt :: "double \<Rightarrow> nat" where
  "salt d = round_to_53_bits (mantissa d * 1000000000) div 2 ^ exponent d"

definition uniquePrefix :: "nat \<Rightarrow> double \<Rightarrow> jsstring" where
  "uniquePrefix now r = to_decimal now @ js ''-'' @ to_hex (salt r)"

text \<open>
  The callback returns \<open>storedName\<close> and leaves \<open>original\<close> in
  \<open>req.savedOriginalFilename\<close>.
\<close>

definition storage_filename ::
  "platform \<Rightarrow> nat \<Rightarrow> double \<Rightarrow> jsstring \<Rightarrow> jsstring \<times> jsstring" where
  "storage_filename P now r originalname =
     (uniquePrefix now r @ js ''-'' @ safeOriginal P (clean_original P originalname),
      clean_original P originalname)"

section \<open>The blob store: the file system\<close>

text \<open>
  A file has its bytes and two facts about what the operating system allows:
  whether it can be opened for reading and whether it can be unlinked.
\<close>

datatype fs_error = ENOENT | EACCES | EPERM

record fs_file =
  content :: "byte list"
  readable :: bool
  removable :: bool

type_synonym filesystem = "jsstring \<rightharpoonup> fs_file"

definition existsSync :: "filesystem \<Rightarrow> jsstring \<Rightarrow> bool" where
  "existsSync fs p \<longleftrightarrow> fs p \<noteq> None"

definition unlinkSync :: "filesystem \<Rightarrow> jsstring \<Rightarrow> fs_error + filesystem" where
  "unlinkSync fs p =
     (case fs p of
        None \<Rightarrow> Inl ENOENT
      | Some f \<Rightarrow> if removable f then Inr (fs(p := None)) else Inl EPERM)"

text \<open>\<open>try { fs.unlinkSync(p) } catch (e) { ... }\<close>: a failure leaves the file system as it was.\<close>

definition try_unlink :: "filesystem \<Rightarrow> jsstring \<Rightarrow> filesystem" where
  "try_unlink fs p = (case unlinkSync fs p of Inl e \<Rightarrow> fs | Inr fs' \<Rightarrow> fs')"

text \<open>
  \<open>openSync\<close>, \<open>Buffer.alloc(4)\<close> (four zero bytes), \<open>readSync\<close> of at most four bytes from
  position 0, \<open>closeSync\<close>: a shorter file leaves the rest of the buffer zero.
\<close>

definition read_head :: "filesystem \<Rightarrow> jsstring \<Rightarrow> fs_error + byte list" where
  "read_head fs p =
     (case fs p of
        None \<Rightarrow> Inl ENOENT
      | Some f \<Rightarrow>
          if readable f then Inr (take 4 (content f) @ replicate (4 - length (content f)) 0)
          else Inl EACCES)"

text \<open>
  \<open>buf.toString() === '%PDF'\<close> holds exactly when the four bytes are 25 50 44 46 (hex);
  the \<open>catch\<close> turns every error into \<open>false\<close>.
\<close>

definition isRealPDF :: "filesystem \<Rightarrow> jsstring \<Rightarrow> bool" where
  "isRealPDF fs p =
     (case read_head fs p of
        Inl err \<Rightarrow> False
      | Inr buf \<Rightarrow> buf = [0x25, 0x50, 0x44, 0x46])"

section \<open>The record store: the \<open>documents\<close> table\<close>

text \<open>
  A row of \<open>documents\<close>. \<open>original_filename\<close> is \<open>None\<close> when the column holds NULL or
  when the table has no such column (a database created before the column was added);
  \<open>created_at\<close> is \<open>CURRENT_TIMESTAMP\<close>, which has a resolution of one second, as a number
  of seconds.
\<close>

record document =
  doc_id :: nat
  filename :: jsstring
  original_filename :: "jsstring option"
  filepath :: jsstring
  filesize :: nat
  created_at :: nat

text \<open>
  The table in rowid order, whether it has the column \<open>original_filename\<close>, and the
  largest id given so far (\<open>AUTOINCREMENT\<close>).
\<close>

record database =
  has_original_filename :: bool
  documents :: "document list"
  last_id :: nat

text \<open>
  What one request finds around it: the clock and the random number of Node, the clock
  of the record store, for the first and the second statement the request runs whether
  the engine fails it (busy, disk full, I/O error) and with which message, whether the
  operating system will let a file that the request creates be unlinked again, and
  whether the connection breaks while a file is being sent.
\<close>

record env =
  now :: nat
  random :: double
  timestamp :: nat
  fault1 :: "string option"
  fault2 :: "string option"
  new_file_removable :: bool
  aborted :: bool

text \<open>
  The message of SQLite (behind the prefix that the \<open>sqlite3\<close> package adds) for an
  \<open>INSERT\<close> whose column list names a column the table does not have.
\<close>

definition no_column_message :: string where
  "no_column_message = ''SQLITE_ERROR: table documents has no column named original_filename''"

definition insert_row ::
  "database \<Rightarrow> nat \<Rightarrow> jsstring \<Rightarrow> jsstring option \<Rightarrow> jsstring \<Rightarrow> nat \<Rightarrow> nat \<times> database" where
  "insert_row db ts fname oname fpath fsize =
     (Suc (last_id db),
      db\<lparr>documents := documents db @
              [\<lparr>doc_id = Suc (last_id db), filename = fname, original_filename = oname,
                filepath = fpath, filesize = fsize, created_at = ts\<rparr>],
         last_id := Suc (last_id db)\<rparr>)"

text \<open>\<open>INSERT INTO documents (filename, original_filename, filepath, filesize) VALUES (?, ?, ?, ?)\<close>\<close>

definition db_insert_full ::
  "string option \<Rightarrow> nat \<Rightarrow> database \<Rightarrow> jsstring \<Rightarrow> jsstring \<Rightarrow> jsstring \<Rightarrow> nat \<Rightarrow>
     string + nat \<times> database" where
  "db_insert_full fault ts db fname oname fpath fsize =
     (case fault of
        Some msg \<Rightarrow> Inl msg
      | None \<Rightarrow>
          if has_original_filename db then Inr (insert_row db ts fname (Some oname) fpath fsize)
          else Inl no_column_message)"

text \<open>\<open>INSERT INTO documents (filename, filepath, filesize) VALUES (?, ?, ?)\<close>\<close>

definition db_insert_reduced ::
  "string option \<Rightarrow> nat \<Rightarrow> database \<Rightarrow> jsstring \<Rightarrow> jsstring \<Rightarrow> nat \<Rightarrow> string + nat \<times> database" where
  "db_insert_reduced fault ts db fname fpath fsize =
     (case fault of
        Some msg \<Rightarrow> Inl msg
      | None \<Rightarrow> Inr (insert_row db ts fname None fpath fsize))"

text \<open>\<open>SELECT * FROM documents WHERE id = ?\<close>\<close>

definition db_get :: "string option \<Rightarrow> database \<Rightarrow> nat \<Rightarrow> string + document option" where
  "db_get fault db i =
     (case fault of
        Some msg \<Rightarrow> Inl msg
      | None \<Rightarrow> Inr (find (\<lambda>d. doc_id d = i) (documents db)))"

text \<open>\<open>DELETE FROM documents WHERE id = ?\<close>\<close>

definition db_delete :: "string option \<Rightarrow> database \<Rightarrow> nat \<Rightarrow> string + database" where
  "db_delete fault db i =
     (case fault of
        Some msg \<Rightarrow> Inl msg
      | None \<Rightarrow> Inr (db\<lparr>documents := filter (\<lambda>d. doc_id d \<noteq> i) (documents db)\<rparr>))"

text \<open>
  \<open>SELECT * FROM documents ORDER BY created_at DESC\<close>. The statement names one sort key,
  so SQL leaves the order of rows with equal \<open>created_at\<close> to the engine; SQLite scans the
  table in rowid order and sorts stably, which is what the insertion sort below does.
\<close>

fun insert_desc :: "document \<Rightarrow> document list \<Rightarrow> document list" where
  "insert_desc d [] = [d]"
| "insert_desc d (e # es) =
     (if created_at e \<le> created_at d then d # e # es else e # insert_desc d es)"

definition order_by_created_at_desc :: "document list \<Rightarrow> document list" where
  "order_by_created_at_desc rows = foldr insert_desc rows []"

definition db_all :: "string option \<Rightarrow> database \<Rightarrow> string + document list" where
  "db_all fault db =
     (case fault of
        Some msg \<Rightarrow> Inl msg
      | None \<Rightarrow> Inr (order_by_created_at_desc (documents db)))"

section \<open>Requests and responses\<close>

text \<open>
  The JSON bodies the server sends: \<open>{error}\<close>; the body of a successful upload
  \<open>{id, filename, original_filename?, filesize, message}\<close>; \<open>{message}\<close>; the array of rows.
  \<open>Download p n\<close> is the file at \<open>p\<close> sent under the name \<open>n\<close>; \<open>Truncated p n\<close> is that
  transfer begun (its headers are out) and broken off.
\<close>

datatype body =
    Error string
  | Uploaded nat jsstring "jsstring option" nat string
  | Message string
  | Rows "document list"

datatype response = Json nat body | Download jsstring jsstring | Truncated jsstring jsstring

text \<open>\<open>req.file\<close> as multer leaves it, and \<open>req.savedOriginalFilename\<close>.\<close>

record upfile =
  req_filename :: jsstring
  req_path :: jsstring
  req_size :: nat

record upload_request =
  req_file :: "upfile option"
  req_savedOriginalFilename :: "jsstring option"

text \<open>The part of the multipart body in the field \<open>document\<close>.\<close>

record part =
  originalname :: jsstring
  mimetype :: jsstring
  bytes :: "byte list"

section \<open>The route handlers\<close>

text \<open>Line 135: \<open>req.savedOriginalFilename || filename\<close>; the empty string is falsy.\<close>

definition originalFilename :: "upload_request \<Rightarrow> upfile \<Rightarrow> jsstring" where
  "originalFilename req f =
     (case req_savedOriginalFilename req of
        None \<Rightarrow> req_filename f
      | Some s \<Rightarrow> if s = [] then req_filename f else s)"

text \<open>The handler of \<open>POST /api/documents/upload\<close>, lines 129 to 196.\<close>

definition upload_handler ::
  "env \<Rightarrow> filesystem \<Rightarrow> database \<Rightarrow> upload_request \<Rightarrow> response \<times> filesystem \<times> database" where
  "upload_handler e fs db req =
     (case req_file req of
        None \<Rightarrow> (Json 400 (Error ''No file uploaded''), fs, db)
      | Some f \<Rightarrow>
          if \<not> isRealPDF fs (req_path f)
          then (Json 400 (Error ''Uploaded file is not a valid PDF''), try_unlink fs (req_path f), db)
          else
            (case db_insert_full (fault1 e) (timestamp e) db (req_filename f)
                    (originalFilename req f) (req_path f) (req_size f) of
               Inr (i, db') \<Rightarrow>
                 (Json 201 (Uploaded i (req_filename f) (Some (originalFilename req f)) (req_size f)
                    ''File uploaded successfully''), fs, db')
             | Inl msg \<Rightarrow>
                 if str_includes msg ''no such column: original_filename''
                 then
                   (case db_insert_reduced (fault2 e) (timestamp e) db (req_filename f)
                           (req_path f) (req_size f) of
                      Inl msg2 \<Rightarrow>
                        (Json 500 (Error (''Database error: '' @ msg2)),
                         try_unlink fs (req_path f), db)
                    | Inr (i, db') \<Rightarrow>
                        (Json 201 (Uploaded i (req_filename f) None (req_size f)
                           ''File uploaded successfully (original_filename column not present)''),
                         fs, db'))
                 else
                   (Json 500 (Error (''Database error: '' @ msg)), try_unlink fs (req_path f), db)))"

text \<open>The handler of \<open>GET /api/documents\<close>, lines 199 to 206.\<close>

definition list_handler :: "env \<Rightarrow> database \<Rightarrow> response" where
  "list_handler e db =
     (case db_all (fault1 e) db of
        Inl msg \<Rightarrow> Json 500 (Error (''Database error: '' @ msg))
      | Inr rows \<Rightarrow> Json 200 (Rows rows))"

text \<open>\<open>row.original_filename || row.filename\<close>: null, undefined and the empty string are falsy.\<close>

definition downloadName :: "document \<Rightarrow> jsstring" where
  "downloadName row =
     (case original_filename row of
        None \<Rightarrow> filename row
      | Some s \<Rightarrow> if s = [] then filename row else s)"

text \<open>
  \<open>res.download(filePath, downloadName, callback)\<close>: the error, if any, that the callback
  receives, with whether the headers had been sent when it struck. A file that is gone or
  cannot be opened fails before any header; a broken connection fails the transfer after
  them.
\<close>

datatype send_error = Before_headers | After_headers

definition res_download :: "env \<Rightarrow> filesystem \<Rightarrow> jsstring \<Rightarrow> send_error option" where
  "res_download e fs p =
     (case fs p of
        None \<Rightarrow> Some Before_headers
      | Some f \<Rightarrow>
          if \<not> readable f then Some Before_headers
          else if aborted e then Some After_headers
          else None)"

text \<open>
  The callback of lines 230 to 236, and what the client has in the end: on an error, a 500
  if \<open>res.headersSent\<close> is false, and nothing more than the broken transfer otherwise.
\<close>

definition download_callback :: "send_error option \<Rightarrow> jsstring \<Rightarrow> jsstring \<Rightarrow> response" where
  "download_callback err p n =
     (case err of
        None \<Rightarrow> Download p n
      | Some Before_headers \<Rightarrow> Json 500 (Error ''Error downloading file'')
      | Some After_headers \<Rightarrow> Truncated p n)"

text \<open>The handler of \<open>GET /api/documents/:id\<close>, lines 209 to 239.\<close>

definition download_handler :: "env \<Rightarrow> filesystem \<Rightarrow> database \<Rightarrow> nat \<Rightarrow> response" where
  "download_handler e fs db i =
     (case db_get (fault1 e) db i of
        Inl msg \<Rightarrow> Json 500 (Error (''Database error: '' @ msg))
      | Inr None \<Rightarrow> Json 404 (Error ''Document not found'')
      | Inr (Some row) \<Rightarrow>
          if \<not> existsSync fs (filepath row) then Json 404 (Error ''File not found on server'')
          else download_callback (res_download e fs (filepath row)) (filepath row)
                 (downloadName row))"

text \<open>Lines 255 to 262: the blob is unlinked if it exists, and a failure is only logged.\<close>

definition remove_blob :: "filesystem \<Rightarrow> document \<Rightarrow> filesystem" where
  "remove_blob fs row =
     (if existsSync fs (filepath row) then try_unlink fs (filepath row) else fs)"

text \<open>The handler of \<open>DELETE /api/documents/:id\<close>, lines 242 to 273.\<close>

definition delete_handler ::
  "env \<Rightarrow> filesystem \<Rightarrow> database \<Rightarrow> nat \<Rightarrow> response \<times> filesystem \<times> database" where
  "delete_handler e fs db i =
     (case db_get (fault1 e) db i of
        Inl msg \<Rightarrow> (Json 500 (Error (''Database error: '' @ msg)), fs, db)
      | Inr None \<Rightarrow> (Json 404 (Error ''Document not found''), fs, db)
      | Inr (Some row) \<Rightarrow>
          (case db_delete (fault2 e) db i of
             Inl msg2 \<Rightarrow> (Json 500 (Error (''Database error: '' @ msg2)), remove_blob fs row, db)
           | Inr db' \<Rightarrow>
               (Json 200 (Message ''Document deleted successfully''), remove_blob fs row, db')))"

section \<open>The upload middleware and the error middleware\<close>

text \<open>
  An error passed to \<open>next\<close>: a \<open>MulterError\<close> with its code and message, or a plain
  \<open>Error\<close> with its message.
\<close>

datatype mw_error = MulterError string string | PlainError string

definition fileSize_limit :: nat where
  "fileSize_limit = 10 * 1024 * 1024"

definition uploadsDir :: "platform \<Rightarrow> jsstring" where
  "uploadsDir P = dirname P @ js ''/uploads''"

text \<open>Where disk storage writes a file: \<open>path.join(destination, filename)\<close>.\<close>

definition upload_path :: "platform \<Rightarrow> jsstring \<Rightarrow> jsstring" where
  "upload_path P storedName = uploadsDir P @ js ''/'' @ storedName"

text \<open>\<open>fileFilter\<close>, lines 113 to 120: the error it passes on, if any.\<close>

definition fileFilter :: "part \<Rightarrow> mw_error option" where
  "fileFilter p =
     (if mimetype p = js ''application/pdf'' then None
      else Some (PlainError ''Only PDF files are allowed (mimetype check)''))"

text \<open>
  Modelled from the spec: the multer package, whose \<open>upload.single\<close> with disk storage
  drives the callbacks of lines 77 to 124, is not in the repository. The specification
  (4.4, steps 2 and 3) has the declared type checked before any byte is written, the bytes
  streamed to the blob store under the storage key, and a stream over the cap aborted
  mid-write and the partial blob removed, a terminal error. Here: the bytes are written
  to the path, and when the part was cut off at the limit the file is unlinked again,
  with the \<open>unlinkSync\<close> of this model, which the operating system may refuse. A file
  the server has just written can be read by it; whether it can be unlinked is the
  environment's.
\<close>

definition written_file :: "env \<Rightarrow> byte list \<Rightarrow> fs_file" where
  "written_file e bs = \<lparr>content = bs, readable = True, removable = new_file_removable e\<rparr>"

definition store_part :: "env \<Rightarrow> filesystem \<Rightarrow> jsstring \<Rightarrow> byte list \<Rightarrow> filesystem" where
  "store_part e fs p bs = fs(p \<mapsto> written_file e bs)"

definition store_and_remove_part ::
  "env \<Rightarrow> filesystem \<Rightarrow> jsstring \<Rightarrow> byte list \<Rightarrow> filesystem" where
  "store_and_remove_part e fs p bs = try_unlink (store_part e fs p (take fileSize_limit bs)) p"

text \<open>
  Modelled from the spec: \<open>upload.single('document')\<close> of the multer package (not in the
  repository), with the storage, the filter and the limit of lines 77 to 124. The
  callbacks and the limit are those of \<open>server.js\<close>; the order in which they are used is
  that of the specification (4.4, steps 1 to 3): no file part leaves \<open>req.file\<close> undefined;
  the filter runs before anything is written; the bytes go to \<open>destination/filename\<close>; a
  part longer than \<open>limits.fileSize\<close> is cut off at the limit, the file written so far is
  unlinked and \<open>MulterError('LIMIT_FILE_SIZE')\<close> is passed on.
\<close>

definition upload_single ::
  "platform \<Rightarrow> env \<Rightarrow> filesystem \<Rightarrow> part option \<Rightarrow> (mw_error + upload_request) \<times> filesystem" where
  "upload_single P e fs p =
     (case p of
        None \<Rightarrow> (Inr \<lparr>req_file = None, req_savedOriginalFilename = None\<rparr>, fs)
      | Some pt \<Rightarrow>
          (case fileFilter pt of
             Some err \<Rightarrow> (Inl err, fs)
           | None \<Rightarrow>
               (case storage_filename P (now e) (random e) (originalname pt) of
                  (storedName, original) \<Rightarrow>
                    if fileSize_limit < length (bytes pt)
                    then (Inl (MulterError ''LIMIT_FILE_SIZE'' ''File too large''),
                          store_and_remove_part e fs (upload_path P storedName) (bytes pt))
                    else
                      (Inr \<lparr>req_file = Some \<lparr>req_filename = storedName,
                                              req_path = upload_path P storedName,
                                              req_size = length (bytes pt)\<rparr>,
                            req_savedOriginalFilename = Some original\<rparr>,
                       store_part e fs (upload_path P storedName) (bytes pt)))))"

text \<open>The error-handling middleware, lines 276 to 287.\<close>

definition error_middleware :: "mw_error \<Rightarrow> response" where
  "error_middleware err =
     (case err of
        MulterError code msg \<Rightarrow>
          if code = ''LIMIT_FILE_SIZE'' then Json 400 (Error ''File size exceeds 10MB limit'')
          else Json 400 (Error msg)
      | PlainError msg \<Rightarrow>
          Json 500 (Error (if msg = [] then ''Internal server error'' else msg)))"

text \<open>
  The route \<open>POST /api/documents/upload\<close>: the middleware, then the handler, or the error
  middleware when the upload middleware passed an error on.
\<close>

definition post_upload ::
  "platform \<Rightarrow> env \<Rightarrow> filesystem \<Rightarrow> database \<Rightarrow> part option \<Rightarrow> response \<times> filesystem \<times> database" where
  "post_upload P e fs db p =
     (case upload_single P e fs p of
        (Inl err, fs') \<Rightarrow> (error_middleware err, fs', db)
      | (Inr req, fs') \<Rightarrow> upload_handler e fs' db req)"

section \<open>The states the server reaches\<close>

text \<open>
  From an empty table, by uploads and deletions; the file system may change under the
  server at any time.
\<close>

inductive reachable :: "platform \<Rightarrow> filesystem \<times> database \<Rightarrow> bool" for P :: platform where
  initial: "documents db = [] \<Longrightarrow> reachable P (fs, db)"
| uploaded: "reachable P (fs, db) \<Longrightarrow> post_upload P e fs db p = (resp, fs', db') \<Longrightarrow>
             reachable P (fs', db')"
| deleted: "reachable P (fs, db) \<Longrightarrow> delete_handler e fs db i = (resp, fs', db') \<Longrightarrow>
            reachable P (fs', db')"
| disturbed: "reachable P (fs, db) \<Longrightarrow> reachable P (fs', db)"

section \<open>The listing order as the specification words it\<close>

text \<open>
  Newest first, and among rows with equal \<open>created_at\<close> the larger id first. This is the
  wording of the specification, set beside \<open>order_by_created_at_desc\<close>, which is what the
  statement of the source asks the record store for.
\<close>

definition newest_first_ties_by_id_desc :: "document list \<Rightarrow> bool" where
  "newest_first_ties_by_id_desc rows \<longleftrightarrow>
     sorted_wrt (\<lambda>a b. created_at b < created_at a \<or>
                        (created_at a = created_at b \<and> doc_id b < doc_id a)) rows"

section \<open>An invariant of the table\<close>

text \<open>Every row has a storage key that is not the empty string.\<close>

definition named :: "database \<Rightarrow> bool" where
  "named db \<longleftrightarrow> (\<forall>d \<in> set (documents db). filename d \<noteq> [])"

section \<open>Concrete inputs\<close>

abbreviation example_env :: env where
  "example_env \<equiv>
     \<lparr>now = 1700000000000, random = \<lparr>mantissa = 2, exponent = 2\<rparr>, timestamp = 1700000000,
      fault1 = None, fault2 = None, new_file_removable = True, aborted = False\<rparr>"

abbreviation new_db :: database where
  "new_db \<equiv> \<lparr>has_original_filename = True, documents = [], last_id = 0\<rparr>"

abbreviation old_db :: database where
  "old_db \<equiv> \<lparr>has_original_filename = False, documents = [], last_id = 0\<rparr>"

abbreviation blob_path :: jsstring where
  "blob_path \<equiv> js ''/srv/app/uploads/1-2-a.pdf''"

abbreviation example_request :: "nat \<Rightarrow> upload_request" where
  "example_request n \<equiv>
     \<lparr>req_file = Some \<lparr>req_filename = js ''1-2-a.pdf'', req_path = blob_path, req_size = n\<rparr>,
      req_savedOriginalFilename = Some (js ''a.pdf'')\<rparr>"

text \<open>The four bytes \<open>GIF8\<close>, and the eight bytes \<open>%PDF-1.4\<close>.\<close>

abbreviation gif_blob :: "bool \<Rightarrow> fs_file" where
  "gif_blob rm \<equiv> \<lparr>content = [0x47, 0x49, 0x46, 0x38], readable = True, removable = rm\<rparr>"

abbreviation pdf_bytes :: "byte list" where
  "pdf_bytes \<equiv> [0x25, 0x50, 0x44, 0x46, 0x2D, 0x31, 0x2E, 0x34]"

abbreviation pdf_blob :: fs_file where
  "pdf_blob \<equiv> \<lparr>content = pdf_bytes, readable = True, removable = True\<rparr>"

abbreviation example_row :: "nat \<Rightarrow> nat \<Rightarrow> document" where
  "example_row i ts \<equiv>
     \<lparr>doc_id = i, filename = js ''1-2-a.pdf'', original_filename = Some (js ''a.pdf''),
      filepath = blob_path, filesize = 8, created_at = ts\<rparr>"

text \<open>An upload of \<open>%PDF-1.4\<close> under the name \<open>notes.txt\<close>, and what it is stored as.\<close>

abbreviation notes_part :: part where
  "notes_part \<equiv>
     \<lparr>originalname = js ''notes.txt'', mimetype = js ''application/pdf'', bytes = pdf_bytes\<rparr>"

abbreviation notes_key :: jsstring where
  "notes_key \<equiv> js ''1700000000000-1dcd6500-notes.txt.pdf''"

abbreviation notes_path :: jsstring where
  "notes_path \<equiv> js ''/srv/app/uploads/1700000000000-1dcd6500-notes.txt.pdf''"

text \<open>A row whose display name is the empty string, and one whose display name is null.\<close>

abbreviation unnamed_row :: "nat \<Rightarrow> jsstring option \<Rightarrow> document" where
  "unnamed_row i n \<equiv>
     \<lparr>doc_id = i, filename = js ''1-2-a.pdf'', original_filename = n, filepath = blob_path,
      filesize = 8, created_at = 1700000000\<rparr>"

text \<open>The same environment with a connection that breaks during a transfer.\<close>

abbreviation breaking_env :: env where
  "breaking_env \<equiv>
     \<lparr>now = 1700000000000, random = \<lparr>mantissa = 2, exponent = 2\<rparr>, timestamp = 1700000000,
      fault1 = None, fault2 = None, new_file_removable = True, aborted = True\<rparr>"

text \<open>The same environment with an operating system that refuses to unlink new files.\<close>

abbreviation locking_env :: env where
  "locking_env \<equiv>
     \<lparr>now = 1700000000000, random = \<lparr>mantissa = 2, exponent = 2\<rparr>, timestamp = 1700000000,
      fault1 = None, fault2 = None, new_file_removable = False, aborted = False\<rparr>"

text \<open>An engine that fails the first statement of the request because the database is locked.\<close>

abbreviation busy_env :: env where
  "busy_env \<equiv>
     \<lparr>now = 1700000000000, random = \<lparr>mantissa = 2, exponent = 2\<rparr>, timestamp = 1700000000,
      fault1 = Some ''SQLITE_BUSY: database is locked'', fault2 = None,
      new_file_removable = True, aborted = False\<rparr>"

text \<open>A part of 10 MiB and one byte, under a declared type.\<close>

abbreviation large_part :: "jsstring \<Rightarrow> part" where
  "large_part ty \<equiv>
     \<lparr>originalname = js ''notes.txt'', mimetype = ty, bytes = replicate 10485761 0x25\<rparr>"

section \<open>Content verification and the rejection of a blob that is not a PDF\<close>

lemma isRealPDF_iff:
  "isRealPDF fs p \<longleftrightarrow>
     (\<exists>g. fs p = Some g \<and> readable g \<and> take 4 (content g) = [0x25, 0x50, 0x44, 0x46])"
proof (cases "fs p")
  case None
  then show ?thesis by (simp add: isRealPDF_def read_head_def)
next
  case (Some g)
  show ?thesis
  proof (cases "4 \<le> length (content g)")
    case True
    with Some show ?thesis by (simp add: isRealPDF_def read_head_def)
  next
    case False
    then have short: "length (take 4 (content g)) < 4" by simp
    have a: "take 4 (content g) \<noteq> [0x25, 0x50, 0x44, 0x46]"
    proof
      assume "take 4 (content g) = [0x25, 0x50, 0x44, 0x46]"
      then have "length (take 4 (content g)) = length [0x25, 0x50, 0x44, (0x46::byte)]"
        by (rule arg_cong)
      with short show False by simp
    qed
    have "0 < 4 - length (content g)" using False by simp
    then obtain k where k: "4 - length (content g) = Suc k"
      by (cases "4 - length (content g)") auto
    have "last (take 4 (content g) @ replicate (4 - length (content g)) (0::byte)) = 0"
      by (simp add: k)
    moreover have "last [0x25, 0x50, 0x44, (0x46::byte)] \<noteq> 0" by simp
    ultimately have b:
      "take 4 (content g) @ replicate (4 - length (content g)) 0 \<noteq> [0x25, 0x50, 0x44, 0x46]"
      by metis
    from Some a b show ?thesis by (simp add: isRealPDF_def read_head_def)
  qed
qed

lemma try_unlink_cases:
  "try_unlink fs p p = None \<or> (\<exists>g. fs p = Some g \<and> \<not> removable g \<and> try_unlink fs p = fs)"
  by (auto simp: try_unlink_def unlinkSync_def split: option.splits)

text \<open>
  C1, as the code has it. When the stored blob fails verification (it is absent or cannot
  be opened, it holds fewer than four bytes, or its first four bytes are not \<open>%PDF\<close>), the
  handler answers 400 \<open>Uploaded file is not a valid PDF\<close> as a value, leaves the table as
  it was, and tries once to unlink the blob: afterwards there is no blob at the path,
  unless the blob exists and its unlink fails, in which case the file system is unchanged.
\<close>

theorem upload_not_a_pdf:
  assumes "req_file req = Some f"
    and "fs (req_path f) = None \<or>
         (\<exists>g. fs (req_path f) = Some g \<and>
              (\<not> readable g \<or> length (content g) < 4 \<or>
               take 4 (content g) \<noteq> [0x25, 0x50, 0x44, 0x46]))"
  shows "upload_handler e fs db req =
           (Json 400 (Error ''Uploaded file is not a valid PDF''), try_unlink fs (req_path f), db) \<and>
         (try_unlink fs (req_path f) (req_path f) = None \<or>
          (\<exists>g. fs (req_path f) = Some g \<and> \<not> removable g \<and> try_unlink fs (req_path f) = fs))"
proof -
  have "\<not> isRealPDF fs (req_path f)"
    using assms(2) by (auto simp: isRealPDF_iff)
  then show ?thesis
    using assms(1) try_unlink_cases [of fs "req_path f"] by (simp add: upload_handler_def)
qed

text \<open>A GIF stored under the upload path, which can be unlinked: 400, and the blob is gone.\<close>

theorem upload_not_a_pdf_witness:
  "\<not> isRealPDF [blob_path \<mapsto> gif_blob True] blob_path \<and>
   upload_handler example_env [blob_path \<mapsto> gif_blob True] new_db (example_request 4) =
     (Json 400 (Error ''Uploaded file is not a valid PDF''), Map.empty, new_db)"
  using upload_not_a_pdf
    [of "example_request 4"
        "\<lparr>req_filename = js ''1-2-a.pdf'', req_path = blob_path, req_size = 4\<rparr>"
        "[blob_path \<mapsto> gif_blob True]" example_env new_db]
  by (simp add: isRealPDF_iff try_unlink_def unlinkSync_def)

text \<open>
  C1 as stated fails: the same GIF, when the operating system refuses the unlink. The
  handler catches the error of \<open>unlinkSync\<close>, answers 400, and the blob is still there.
\<close>

theorem locked_blob_survives_rejection:
  "\<not> isRealPDF [blob_path \<mapsto> gif_blob False] blob_path \<and>
   upload_handler example_env [blob_path \<mapsto> gif_blob False] new_db (example_request 4) =
     (Json 400 (Error ''Uploaded file is not a valid PDF''), [blob_path \<mapsto> gif_blob False], new_db)"
  by (simp add: upload_handler_def isRealPDF_def read_head_def try_unlink_def unlinkSync_def)

section \<open>The insert and the fallback for a table without \<open>original_filename\<close>\<close>

lemma no_column_message_unmatched:
  "\<not> str_includes no_column_message ''no such column: original_filename''"
  by (simp add: no_column_message_def)

text \<open>
  When the insert fails with a message that does not contain
  \<open>no such column: original_filename\<close>, there is no second insert: the handler tries to
  unlink the blob and answers 500 with the message.
\<close>

lemma upload_insert_error_not_retried:
  assumes "req_file req = Some f" and "isRealPDF fs (req_path f)"
    and "db_insert_full (fault1 e) (timestamp e) db (req_filename f) (originalFilename req f)
           (req_path f) (req_size f) = Inl msg"
    and "\<not> str_includes msg ''no such column: original_filename''"
  shows "upload_handler e fs db req =
           (Json 500 (Error (''Database error: '' @ msg)), try_unlink fs (req_path f), db)"
  using assms by (simp add: upload_handler_def)

text \<open>
  When the message does contain it, the reduced insert runs once: its success is a 201
  without \<open>original_filename\<close>, its failure a 500 after an attempt to unlink the blob.
\<close>

lemma upload_insert_retried_on_message:
  assumes "req_file req = Some f" and "isRealPDF fs (req_path f)"
    and "db_insert_full (fault1 e) (timestamp e) db (req_filename f) (originalFilename req f)
           (req_path f) (req_size f) = Inl msg"
    and "str_includes msg ''no such column: original_filename''"
  shows "upload_handler e fs db req =
           (case db_insert_reduced (fault2 e) (timestamp e) db (req_filename f) (req_path f)
                   (req_size f) of
              Inl msg2 \<Rightarrow>
                (Json 500 (Error (''Database error: '' @ msg2)), try_unlink fs (req_path f), db)
            | Inr (i, db') \<Rightarrow>
                (Json 201 (Uploaded i (req_filename f) None (req_size f)
                   ''File uploaded successfully (original_filename column not present)''),
                 fs, db'))"
  using assms by (simp add: upload_handler_def)

text \<open>
  C3, at the input the fallback was written for: a genuine PDF uploaded to a database
  whose table has no column \<open>original_filename\<close>, with an engine that fails nothing. SQLite
  words the rejection \<open>table documents has no column named original_filename\<close>; the test
  of line 156 looks for \<open>no such column: original_filename\<close>, so the reduced insert never
  runs: the blob is unlinked and the answer is 500.
\<close>

theorem old_schema_upload_is_rejected:
  "upload_handler example_env [blob_path \<mapsto> pdf_blob] old_db (example_request 8) =
     (Json 500 (Error
        ''Database error: SQLITE_ERROR: table documents has no column named original_filename''),
      Map.empty, old_db)"
  by (simp add: upload_handler_def isRealPDF_def read_head_def db_insert_full_def
      no_column_message_unmatched try_unlink_def unlinkSync_def originalFilename_def)
    (simp add: no_column_message_def)

section \<open>The storage key\<close>

lemma bit_length_lower: "0 < n \<Longrightarrow> 2 ^ (bit_length n - 1) \<le> n"
proof (induction n rule: bit_length.induct)
  case (1 n)
  show ?case
  proof (cases "n div 2 = 0")
    case True
    with 1 show ?thesis by (simp add: bit_length.simps)
  next
    case False
    then have "2 ^ (bit_length (n div 2) - 1) \<le> n div 2" using 1 by simp
    moreover have "bit_length n = Suc (bit_length (n div 2))"
      using 1(2) by (subst bit_length.simps) simp
    moreover have "0 < bit_length (n div 2)" using False by (subst bit_length.simps) simp
    ultimately have "2 ^ (bit_length n - 1) \<le> 2 * (n div 2)"
      by (cases "bit_length (n div 2)") auto
    then show ?thesis by linarith
  qed
qed

text \<open>Rounding to a multiple of \<open>2 * h\<close> moves a number by at most \<open>h\<close>.\<close>

lemma round_to_multiple_error:
  assumes "0 < h"
  shows "round_to_multiple (2 * h) n \<le> n + h \<and> n \<le> round_to_multiple (2 * h) n + h"
proof -
  have d: "n = (n div (2 * h)) * (2 * h) + n mod (2 * h)" by (metis div_mult_mod_eq)
  have m: "n mod (2 * h) < 2 * h" using assms by simp
  show ?thesis
  proof (cases "2 * h < 2 * (n mod (2 * h)) \<or>
      (2 * h = 2 * (n mod (2 * h)) \<and> odd (n div (2 * h)))")
    case True
    then have r: "round_to_multiple (2 * h) n = (n div (2 * h)) * (2 * h) + 2 * h"
      by (auto simp: round_to_multiple_def)
    from True have "h \<le> n mod (2 * h)" by auto
    with d m r show ?thesis by linarith
  next
    case False
    then have r: "round_to_multiple (2 * h) n = (n div (2 * h)) * (2 * h)"
      by (auto simp: round_to_multiple_def)
    from False have "n mod (2 * h) \<le> h" by auto
    with d r show ?thesis by linarith
  qed
qed

text \<open>
  Rounding to 53 digits moves a number by at most its \<open>2 ^ 53\<close>-th part
  (\<open>2 ^ 53 = 9007199254740992\<close>).
\<close>

lemma round_to_53_bits_error:
  "9007199254740992 * round_to_53_bits n \<le> 9007199254740992 * n + n \<and>
   9007199254740992 * n \<le> 9007199254740992 * round_to_53_bits n + n"
proof (cases "bit_length n \<le> 53")
  case True
  then show ?thesis by (simp add: round_to_53_bits_def)
next
  case False
  define k where "k = bit_length n - 54"
  have k: "bit_length n = 54 + k" using False by (simp add: k_def)
  define x :: nat where "x = 2 ^ k"
  have pos: "0 < n" using False by (cases "n = 0") (simp_all add: bit_length.simps)
  have "2 ^ (bit_length n - 1) \<le> n" using pos by (rule bit_length_lower)
  then have "(2::nat) ^ 53 * 2 ^ k \<le> n" by (simp add: k power_add)
  then have low: "9007199254740992 * x \<le> n" by (simp add: x_def)
  have r: "round_to_53_bits n = round_to_multiple (2 * x) n"
    using False by (simp add: round_to_53_bits_def k x_def)
  have "round_to_multiple (2 * x) n \<le> n + x \<and> n \<le> round_to_multiple (2 * x) n + x"
    by (rule round_to_multiple_error) (simp add: x_def)
  with low r show ?thesis by linarith
qed

lemma unit_double_bound:
  assumes "unit_double d"
  shows "9007199254740992 * mantissa d \<le> 9007199254740991 * 2 ^ exponent d"
proof (cases "exponent d \<le> 53")
  case True
  then have "(2::nat) ^ exponent d \<le> 2 ^ 53" by (intro power_increasing) simp_all
  then have "(2::nat) ^ exponent d \<le> 9007199254740992" by simp
  moreover have "mantissa d < 2 ^ exponent d" using assms by (simp add: unit_double_def)
  ultimately show ?thesis by linarith
next
  case False
  then have "(2::nat) ^ 54 \<le> 2 ^ exponent d" by (intro power_increasing) simp_all
  then have "(18014398509481984::nat) \<le> 2 ^ exponent d" by simp
  moreover have "mantissa d < 2 ^ 53" using assms by (simp add: unit_double_def)
  then have "mantissa d < 9007199254740992" by simp
  ultimately show ?thesis by linarith
qed

text \<open>
  The largest double below 1 is \<open>1 - 2 ^ -53\<close>, and the rounding of the product does not
  reach \<open>10 ^ 9\<close>.
\<close>

lemma salt_less:
  assumes "unit_double d"
  shows "salt d < 1000000000"
proof -
  define R where "R = round_to_53_bits (mantissa d * 1000000000)"
  define Q :: nat where "Q = 2 ^ exponent d"
  have "9007199254740992 * R \<le>
      9007199254740992 * (mantissa d * 1000000000) + mantissa d * 1000000000"
    unfolding R_def using round_to_53_bits_error [of "mantissa d * 1000000000"] by blast
  moreover have "9007199254740992 * mantissa d \<le> 9007199254740991 * Q"
    unfolding Q_def using assms by (rule unit_double_bound)
  moreover have "0 < Q" by (simp add: Q_def)
  ultimately have "R < 1000000000 * Q" by linarith
  then have "R div Q < 1000000000"
    by (simp add: less_mult_imp_div_less mult.commute)
  then show ?thesis by (simp add: salt_def R_def Q_def)
qed

text \<open>
  Every number below \<open>10 ^ 9\<close> is the salt of some double, and already of a multiple of
  \<open>2 ^ -52\<close>: of the one next below \<open>(n + 1/2) / 10 ^ 9\<close>
  (\<open>2 ^ 51 = 2251799813685248\<close>, \<open>2 ^ 52 = 4503599627370496\<close>).
\<close>

lemma salt_onto:
  assumes "n < 1000000000"
  shows "\<exists>d. unit_double d \<and> exponent d = 52 \<and> salt d = n"
proof -
  define k where "k = ((2 * n + 1) * 2251799813685248) div 1000000000"
  define R where "R = round_to_53_bits (k * 1000000000)"
  have k1: "k * 1000000000 \<le> (2 * n + 1) * 2251799813685248"
    by (simp add: k_def)
  have "(2 * n + 1) * 2251799813685248 =
      k * 1000000000 + ((2 * n + 1) * 2251799813685248) mod 1000000000"
    by (simp add: k_def)
  moreover have "((2 * n + 1) * 2251799813685248) mod 1000000000 < 1000000000" by simp
  ultimately have k2: "(2 * n + 1) * 2251799813685248 < k * 1000000000 + 1000000000"
    by linarith
  have e: "9007199254740992 * R \<le> 9007199254740992 * (k * 1000000000) + k * 1000000000 \<and>
      9007199254740992 * (k * 1000000000) \<le> 9007199254740992 * R + k * 1000000000"
    unfolding R_def by (rule round_to_53_bits_error)
  define M where "M = k * 1000000000"
  have m1: "M \<le> n * 4503599627370496 + 2251799813685248"
    using k1 by (simp add: M_def algebra_simps)
  have m2: "n * 4503599627370496 + 2251798813685248 < M"
    using k2 by (simp add: M_def algebra_simps)
  have m3: "M \<le> 1000000000 * 9007199254740992" using m1 assms by linarith
  from e have "9007199254740992 * R \<le> 9007199254740992 * M + M" by (simp add: M_def)
  then have "9007199254740992 * R \<le> 9007199254740992 * M + 9007199254740992 * 1000000000"
    using m3 by linarith
  then have u: "R \<le> M + 1000000000" by linarith
  from e have "9007199254740992 * M \<le> 9007199254740992 * R + M" by (simp add: M_def)
  then have "9007199254740992 * M \<le> 9007199254740992 * R + 9007199254740992 * 1000000000"
    using m3 by linarith
  then have l: "M \<le> R + 1000000000" by linarith
  have lo: "n * 4503599627370496 \<le> R" using l m2 by linarith
  have hi: "R < n * 4503599627370496 + 4503599627370496" using u m1 by linarith
  have "R div 4503599627370496 = n"
    using lo hi by (intro div_nat_eqI) (simp_all add: mult.commute)
  then have s: "salt \<lparr>mantissa = k, exponent = 52\<rparr> = n"
    by (simp add: salt_def R_def)
  have "k < 4503599627370496" using m1 assms by (simp add: M_def)
  then have "unit_double \<lparr>mantissa = k, exponent = 52\<rparr>"
    by (simp add: unit_double_def)
  with s show ?thesis by (intro exI [of _ "\<lparr>mantissa = k, exponent = 52\<rparr>"]) simp
qed

lemma salt_range: "salt ` {d. unit_double d} = {..<1000000000}"
proof
  show "salt ` {d. unit_double d} \<subseteq> {..<1000000000}"
    using salt_less by auto
  show "{..<1000000000} \<subseteq> salt ` {d. unit_double d}"
  proof
    fix n :: nat
    assume "n \<in> {..<1000000000}"
    then have "n < 1000000000" by simp
    then obtain d where "unit_double d" "salt d = n" using salt_onto by blast
    then show "n \<in> salt ` {d. unit_double d}" by force
  qed
qed

text \<open>
  The multiplication rounds: at the double \<open>5890739837798 / 2 ^ 52\<close> the exact product is
  just below 1308007 and the product of doubles is 1308007.
\<close>

lemma salt_rounded_up:
  "salt \<lparr>mantissa = 5890739837798, exponent = 52\<rparr> = 1308007 \<and>
   5890739837798 * 1000000000 div 2 ^ 52 = (1308006::nat)"
  by (simp add: salt_def round_to_53_bits_def round_to_multiple_def bit_length.simps)

text \<open>
  C4 as stated fails: over all the doubles \<open>Math.random\<close> can return, the salt takes fewer
  than \<open>2 ^ 30\<close> values, so it carries less than 30 bits of entropy however \<open>Math.random\<close>
  is distributed.
\<close>

theorem salt_fewer_than_2_30_values: "card (salt ` {d. unit_double d}) < 2 ^ 30"
  by (simp add: salt_range)

lemma digit_char_hex: "d < 16 \<Longrightarrow> digit_char d \<in> set (js ''0123456789abcdef'')"
proof -
  assume "d < 16"
  then have "d = 0 \<or> d = 1 \<or> d = 2 \<or> d = 3 \<or> d = 4 \<or> d = 5 \<or> d = 6 \<or> d = 7 \<or> d = 8 \<or>
      d = 9 \<or> d = 10 \<or> d = 11 \<or> d = 12 \<or> d = 13 \<or> d = 14 \<or> d = 15"
    by arith
  then show ?thesis by (elim disjE) (simp_all add: digit_char_def js_def)
qed

lemma digit_char_dec: "d < 10 \<Longrightarrow> digit_char d \<in> set (js ''0123456789'')"
proof -
  assume "d < 10"
  then have "d = 0 \<or> d = 1 \<or> d = 2 \<or> d = 3 \<or> d = 4 \<or> d = 5 \<or> d = 6 \<or> d = 7 \<or> d = 8 \<or>
      d = 9"
    by arith
  then show ?thesis by (elim disjE) (simp_all add: digit_char_def js_def)
qed

lemma to_hex_digits: "set (to_hex n) \<subseteq> set (js ''0123456789abcdef'')"
proof (induction n rule: to_hex.induct)
  case (1 n)
  show ?case
  proof (cases "n < 16")
    case True
    then show ?thesis using digit_char_hex [of n] by (subst to_hex.simps) simp
  next
    case False
    have "n mod 16 < 16" by simp
    then have "digit_char (n mod 16) \<in> set (js ''0123456789abcdef'')" by (rule digit_char_hex)
    with False 1 show ?thesis by (subst to_hex.simps) simp
  qed
qed

lemma to_decimal_digits: "set (to_decimal n) \<subseteq> set (js ''0123456789'')"
proof (induction n rule: to_decimal.induct)
  case (1 n)
  show ?case
  proof (cases "n < 10")
    case True
    then show ?thesis using digit_char_dec [of n] by (subst to_decimal.simps) simp
  next
    case False
    have "n mod 10 < 10" by simp
    then have "digit_char (n mod 10) \<in> set (js ''0123456789'')" by (rule digit_char_dec)
    with False 1 show ?thesis by (subst to_decimal.simps) simp
  qed
qed

lemma to_hex_nonempty: "to_hex n \<noteq> []"
  by (subst to_hex.simps) simp

lemma to_decimal_nonempty: "to_decimal n \<noteq> []"
  by (subst to_decimal.simps) simp

lemma to_hex_length: "n < 16 ^ Suc k \<Longrightarrow> length (to_hex n) \<le> Suc k"
proof (induction k arbitrary: n)
  case 0
  then show ?case by (subst to_hex.simps) simp
next
  case (Suc k)
  show ?case
  proof (cases "n < 16")
    case True
    then show ?thesis by (subst to_hex.simps) simp
  next
    case False
    from Suc.prems have "n div 16 < 16 ^ Suc k"
      by (simp add: less_mult_imp_div_less mult.commute)
    then have "length (to_hex (n div 16)) \<le> Suc k" by (rule Suc.IH)
    with False show ?thesis by (subst to_hex.simps) simp
  qed
qed

text \<open>
  C4, as the code has it. The storage key is the decimal timestamp, a hyphen, the salt in
  lower-case hexadecimal (at most eight digits), a hyphen and the sanitized name. The
  salt is a number below \<open>10 ^ 9\<close>, and every number below \<open>10 ^ 9\<close> is the salt for some
  value of \<open>Math.random()\<close>: the salt has exactly \<open>10 ^ 9\<close> values, more than \<open>2 ^ 29\<close> and
  fewer than \<open>2 ^ 30\<close>.
\<close>

theorem storage_key_form:
  assumes "unit_double r"
  shows "fst (storage_filename P ms r name) =
           to_decimal ms @ js ''-'' @ to_hex (salt r) @ js ''-'' @
             safeOriginal P (clean_original P name) \<and>
         to_decimal ms \<noteq> [] \<and> set (to_decimal ms) \<subseteq> set (js ''0123456789'') \<and>
         to_hex (salt r) \<noteq> [] \<and> set (to_hex (salt r)) \<subseteq> set (js ''0123456789abcdef'') \<and>
         length (to_hex (salt r)) \<le> 8 \<and>
         salt r < 10 ^ 9 \<and>
         salt ` {d. unit_double d} = {..<10 ^ 9} \<and>
         card (salt ` {d. unit_double d}) = 10 ^ 9 \<and>
         (2::nat) ^ 29 < 10 ^ 9 \<and> (10::nat) ^ 9 < 2 ^ 30"
proof -
  have s: "salt r < 1000000000" using assms by (rule salt_less)
  then have "salt r < 16 ^ Suc 7" by simp
  then have "length (to_hex (salt r)) \<le> Suc 7" by (rule to_hex_length)
  then have l: "length (to_hex (salt r)) \<le> 8" by simp
  show ?thesis
    using s l to_hex_digits [of "salt r"] to_decimal_digits [of ms]
    by (simp add: storage_filename_def uniquePrefix_def to_hex_nonempty to_decimal_nonempty
        salt_range)
qed

lemmas name_defs =
  js_def is_ctrl_def is_ws_def trim_def strip_ctrl_def ends_with_pdf_def strip_leading_def
  is_illegal_def is_lib_ctrl_def reserved_dots_def ascii_lower_def is_line_terminator_def
  device_tail_def is_digit_def windows_reserved_def strip_windows_trailing_def utf8_len_def
  is_high_surrogate_def is_low_surrogate_def sanitize_filename_def ascii_platform_def
  MAX_NAME_LEN_def clean_original_def safeOriginal_def reserved_device_def fallback_name_def
  ensure_pdf_def

lemma to_decimal_example: "to_decimal 1700000000000 = js ''1700000000000''"
  by (simp add: to_decimal.simps digit_char_def js_def)

lemma salt_example: "salt \<lparr>mantissa = 2, exponent = 2\<rparr> = 500000000"
  by (simp add: salt_def round_to_53_bits_def bit_length.simps)

lemma to_hex_example: "to_hex 500000000 = js ''1dcd6500''"
  by (simp add: to_hex.simps digit_char_def js_def)

lemma safeOriginal_report:
  "safeOriginal ascii_platform (clean_original ascii_platform (js ''report.pdf'')) = js ''report.pdf''"
  by (simp add: name_defs)

theorem storage_key_form_witness:
  "unit_double \<lparr>mantissa = 2, exponent = 2\<rparr> \<and>
   fst (storage_filename ascii_platform 1700000000000 \<lparr>mantissa = 2, exponent = 2\<rparr>
          (js ''report.pdf'')) =
     js ''1700000000000-1dcd6500-report.pdf'' \<and>
   salt \<lparr>mantissa = 2, exponent = 2\<rparr> = 500000000"
proof -
  have h: "unit_double \<lparr>mantissa = 2, exponent = 2\<rparr>" by (simp add: unit_double_def)
  show ?thesis
    using h storage_key_form [OF h, of ascii_platform 1700000000000 "js ''report.pdf''"]
    by (simp add: to_decimal_example salt_example to_hex_example safeOriginal_report)
      (simp add: js_def)
qed

lemma safeOriginal_notes:
  "safeOriginal ascii_platform (js ''notes.txt'') = js ''notes.txt.pdf''"
  by (simp add: name_defs)

lemma clean_original_notes: "clean_original ascii_platform (js ''notes.txt'') = js ''notes.txt''"
  by (simp add: name_defs)

lemma storage_filename_notes:
  "storage_filename ascii_platform 1700000000000 \<lparr>mantissa = 2, exponent = 2\<rparr>
     (js ''notes.txt'') =
     (notes_key, js ''notes.txt'')"
  by (simp add: storage_filename_def uniquePrefix_def to_decimal_example salt_example
      to_hex_example safeOriginal_notes clean_original_notes)
    (simp add: js_def)

lemma upload_path_notes: "upload_path ascii_platform notes_key = notes_path"
  by (simp add: upload_path_def uploadsDir_def ascii_platform_def js_def)

section \<open>The filename sanitizer\<close>

text \<open>
  What lines 89 to 98 do guarantee, for every input and whatever the sanitizing package
  returns: the name is at most 204 code units long, does not start with a dot or
  whitespace, and ends with the three letters of \<open>pdf\<close> in either case (so it is not
  empty). When the package only removes characters, a name built from \<open>original\<close> has no
  control character.
\<close>

lemma dropWhile_keeps_tail:
  "\<not> Q x \<Longrightarrow> \<exists>u. dropWhile Q (t @ x # rest) = u @ x # rest"
  by (induction t) auto

lemma ends_with_pdf_split:
  assumes "ends_with_pdf s"
  shows "\<exists>t p d f. s = t @ [0x2E, p, d, f] \<and> (p = 0x70 \<or> p = 0x50) \<and>
           (d = 0x64 \<or> d = 0x44) \<and> (f = 0x66 \<or> f = 0x46)"
proof -
  from assms obtain f d p dot r where r: "rev s = f # d # p # dot # r"
    and c: "dot = 0x2E" "p = 0x70 \<or> p = 0x50" "d = 0x64 \<or> d = 0x44" "f = 0x66 \<or> f = 0x46"
    by (auto simp: ends_with_pdf_def split: list.splits)
  from r have "rev (rev s) = rev (f # d # p # dot # r)" by simp
  then have "s = rev r @ [dot, p, d, f]" by simp
  with c show ?thesis by blast
qed

lemma ensure_pdf_ends: "ends_with_pdf (ensure_pdf s)"
  by (simp add: ensure_pdf_def ends_with_pdf_def js_def)

lemma letter_p_kept: "(p = 0x70 \<or> p = 0x50) \<Longrightarrow> \<not> (p = 0x2E \<or> is_ws p)"
  by (auto simp: is_ws_def)

lemma safeOriginal_ends_pdf:
  "\<exists>u p d f. safeOriginal P s = u @ [p, d, f] \<and> (p = 0x70 \<or> p = 0x50) \<and>
     (d = 0x64 \<or> d = 0x44) \<and> (f = 0x66 \<or> f = 0x46)"
proof -
  let ?s = "ensure_pdf (fallback_name (take MAX_NAME_LEN (trim (collapse_ws (sanitize P s)))))"
  obtain t p d f where s: "?s = t @ [0x2E, p, d, f]"
    and c: "p = 0x70 \<or> p = 0x50" "d = 0x64 \<or> d = 0x44" "f = 0x66 \<or> f = 0x46"
    using ends_with_pdf_split [OF ensure_pdf_ends] by blast
  have "\<not> (p = 0x2E \<or> is_ws p)" using c(1) by (rule letter_p_kept)
  then obtain u where
    "dropWhile (\<lambda>c. c = 0x2E \<or> is_ws c) ((t @ [0x2E]) @ p # [d, f]) = u @ p # [d, f]"
    using dropWhile_keeps_tail [of "\<lambda>c. c = 0x2E \<or> is_ws c" p "t @ [0x2E]" "[d, f]"] by blast
  then have "safeOriginal P s = u @ [p, d, f]"
    by (simp add: safeOriginal_def strip_leading_def s)
  with c show ?thesis by blast
qed

lemma safeOriginal_length: "length (safeOriginal P s) \<le> 204"
proof -
  have "length (safeOriginal P s) \<le>
      length (ensure_pdf (fallback_name (take MAX_NAME_LEN (trim (collapse_ws (sanitize P s))))))"
    by (simp add: safeOriginal_def strip_leading_def length_dropWhile_le)
  also have "\<dots> \<le>
      length (fallback_name (take MAX_NAME_LEN (trim (collapse_ws (sanitize P s))))) + 4"
    by (simp add: ensure_pdf_def js_def)
  also have "\<dots> \<le> 200 + 4"
    by (simp add: fallback_name_def MAX_NAME_LEN_def js_def)
  finally show ?thesis by simp
qed

lemma safeOriginal_head: "safeOriginal P s = c # cs \<Longrightarrow> c \<noteq> 0x2E \<and> \<not> is_ws c"
  by (auto simp: safeOriginal_def strip_leading_def dropWhile_eq_Cons_conv)

lemma set_trim: "set (trim s) \<subseteq> set s"
proof
  fix x
  assume "x \<in> set (trim s)"
  then have "x \<in> set (dropWhile is_ws (rev (dropWhile is_ws s)))"
    by (simp add: trim_def)
  then have "x \<in> set (rev (dropWhile is_ws s))" by (rule set_dropWhileD)
  then have "x \<in> set (dropWhile is_ws s)" by simp
  then show "x \<in> set s" by (rule set_dropWhileD)
qed

lemma set_collapse_ws: "set (collapse_ws s) \<subseteq> insert 0x20 (set s)"
proof (induction s rule: collapse_ws.induct)
  case 1
  then show ?case by simp
next
  case (2 c cs)
  then show ?case by (auto dest: set_dropWhileD)
qed

lemma no_ctrl_literals:
  "\<not> is_ctrl 0x20" "\<forall>c \<in> set (js ''.pdf''). \<not> is_ctrl c"
  "\<forall>c \<in> set (js ''file.pdf''). \<not> is_ctrl c"
  by (simp_all add: is_ctrl_def js_def)

lemma clean_original_no_ctrl: "\<forall>c \<in> set (clean_original P name). \<not> is_ctrl c"
  using set_trim by (fastforce simp: clean_original_def strip_ctrl_def)

lemma safeOriginal_no_ctrl:
  assumes "set (sanitize P s) \<subseteq> set s" and "\<forall>c \<in> set s. \<not> is_ctrl c"
  shows "\<forall>c \<in> set (safeOriginal P s). \<not> is_ctrl c"
proof -
  have 1: "\<forall>c \<in> set (collapse_ws (sanitize P s)). \<not> is_ctrl c"
    using set_collapse_ws [of "sanitize P s"] assms no_ctrl_literals(1) by auto
  have 2: "\<forall>c \<in> set (take MAX_NAME_LEN (trim (collapse_ws (sanitize P s)))). \<not> is_ctrl c"
    using 1 set_trim [of "collapse_ws (sanitize P s)"] by (auto dest: in_set_takeD)
  have 3: "\<forall>c \<in> set (fallback_name (take MAX_NAME_LEN (trim (collapse_ws (sanitize P s))))).
      \<not> is_ctrl c"
    using 2 no_ctrl_literals(3) by (simp add: fallback_name_def)
  have 4: "\<forall>c \<in> set (ensure_pdf (fallback_name (take MAX_NAME_LEN
      (trim (collapse_ws (sanitize P s)))))). \<not> is_ctrl c"
    using 3 no_ctrl_literals(2) by (auto simp: ensure_pdf_def)
  show ?thesis
    using 4 by (auto simp: safeOriginal_def strip_leading_def dest: set_dropWhileD)
qed

lemma set_truncate_utf8: "set (truncate_utf8 b s) \<subseteq> set s"
  by (induction b s rule: truncate_utf8.induct) auto

lemma set_sanitize_filename: "set (sanitize_filename s) \<subseteq> set s"
proof
  fix x
  assume "x \<in> set (sanitize_filename s)"
  then have "x \<in> set (strip_windows_trailing (reserved_device (reserved_dots
      (filter (\<lambda>c. \<not> is_lib_ctrl c) (filter (\<lambda>c. \<not> is_illegal c) s)))))"
    using set_truncate_utf8 by (auto simp: sanitize_filename_def)
  then have "x \<in> set (reserved_device (reserved_dots
      (filter (\<lambda>c. \<not> is_lib_ctrl c) (filter (\<lambda>c. \<not> is_illegal c) s))))"
    by (auto simp: strip_windows_trailing_def dest: set_dropWhileD)
  then show "x \<in> set s"
    by (auto simp: reserved_device_def reserved_dots_def split: if_splits)
qed

lemma safeOriginal_guarantees:
  "length (safeOriginal P (clean_original P name)) \<le> 204 \<and>
   safeOriginal P (clean_original P name) \<noteq> [] \<and>
   hd (safeOriginal P (clean_original P name)) \<noteq> 0x2E \<and>
   \<not> is_ws (hd (safeOriginal P (clean_original P name))) \<and>
   (\<exists>u p d f. safeOriginal P (clean_original P name) = u @ [p, d, f] \<and>
      (p = 0x70 \<or> p = 0x50) \<and> (d = 0x64 \<or> d = 0x44) \<and> (f = 0x66 \<or> f = 0x46)) \<and>
   ((\<forall>s. set (sanitize P s) \<subseteq> set s) \<longrightarrow>
      (\<forall>c \<in> set (safeOriginal P (clean_original P name)). \<not> is_ctrl c))"
proof -
  obtain u p d f where e: "safeOriginal P (clean_original P name) = u @ [p, d, f]"
    and l: "(p = 0x70 \<or> p = 0x50) \<and> (d = 0x64 \<or> d = 0x44) \<and> (f = 0x66 \<or> f = 0x46)"
    using safeOriginal_ends_pdf [of P "clean_original P name"] by blast
  from e have n: "safeOriginal P (clean_original P name) \<noteq> []" by simp
  then obtain c cs where "safeOriginal P (clean_original P name) = c # cs"
    by (cases "safeOriginal P (clean_original P name)") auto
  then have h: "hd (safeOriginal P (clean_original P name)) \<noteq> 0x2E \<and>
      \<not> is_ws (hd (safeOriginal P (clean_original P name)))"
    using safeOriginal_head [of P "clean_original P name" c cs] by simp
  have k: "(\<forall>s. set (sanitize P s) \<subseteq> set s) \<longrightarrow>
      (\<forall>c \<in> set (safeOriginal P (clean_original P name)). \<not> is_ctrl c)"
    using safeOriginal_no_ctrl [of P "clean_original P name"] clean_original_no_ctrl [of P name]
    by blast
  from e l n h k safeOriginal_length [of P "clean_original P name"] show ?thesis by blast
qed

text \<open>
  C2, at the name \<open>.pdf\<close>. Nothing is removed by the sanitizing steps, the name already
  ends with \<open>.pdf\<close> so line 95 appends nothing, and line 98 then strips the leading dot,
  which is the dot of the extension: the result is \<open>pdf\<close>, which does not end with
  \<open>.pdf\<close>.
\<close>

theorem dot_pdf_loses_its_extension:
  "safeOriginal ascii_platform (clean_original ascii_platform (js ''.pdf'')) = js ''pdf'' \<and>
   \<not> ends_with_pdf (js ''pdf'')"
  by (simp add: name_defs)

section \<open>A successful upload and the display name\<close>

lemma isRealPDF_written:
  "take 4 bs = [0x25, 0x50, 0x44, 0x46] \<Longrightarrow> isRealPDF (store_part e fs p bs) p"
  by (simp add: isRealPDF_iff store_part_def written_file_def)

lemma post_upload_stores:
  assumes "mimetype pt = js ''application/pdf''"
    and "length (bytes pt) \<le> 10 * 1024 * 1024"
    and "take 4 (bytes pt) = [0x25, 0x50, 0x44, 0x46]"
    and "has_original_filename db" and "fault1 e = None"
    and "storage_filename P (now e) (random e) (originalname pt) = (key, original)"
  shows "post_upload P e fs db (Some pt) =
           (Json 201 (Uploaded (Suc (last_id db)) key
                        (Some (if original = [] then key else original))
                        (length (bytes pt)) ''File uploaded successfully''),
            store_part e fs (upload_path P key) (bytes pt),
            db\<lparr>documents := documents db @
                  [\<lparr>doc_id = Suc (last_id db), filename = key,
                    original_filename = Some (if original = [] then key else original),
                    filepath = upload_path P key, filesize = length (bytes pt),
                    created_at = timestamp e\<rparr>],
               last_id := Suc (last_id db)\<rparr>)"
  using assms
  by (simp add: post_upload_def upload_single_def fileFilter_def fileSize_limit_def
      upload_handler_def isRealPDF_written db_insert_full_def insert_row_def originalFilename_def)

text \<open>
  C9, as the code has it. For an upload declared \<open>application/pdf\<close>, of at most 10 MiB,
  that starts with \<open>%PDF\<close>, into a table that has the column, with the insert not failed
  by the engine: the answer is 201, and the display name it carries and the row records
  is the client's filename normalised, without control characters and trimmed (the
  variable \<open>original\<close> of line 105, which is not passed through the sanitizer), or the
  storage key when that string is empty.
\<close>

theorem display_name_recorded:
  assumes "mimetype pt = js ''application/pdf''"
    and "length (bytes pt) \<le> 10 * 1024 * 1024"
    and "take 4 (bytes pt) = [0x25, 0x50, 0x44, 0x46]"
    and "has_original_filename db" and "fault1 e = None"
  shows "\<exists>key display fs' db'.
           post_upload P e fs db (Some pt) =
             (Json 201 (Uploaded (Suc (last_id db)) key (Some display) (length (bytes pt))
                ''File uploaded successfully''), fs', db') \<and>
           key = fst (storage_filename P (now e) (random e) (originalname pt)) \<and>
           display = (if clean_original P (originalname pt) = [] then key
                      else clean_original P (originalname pt)) \<and>
           map original_filename (documents db') =
             map original_filename (documents db) @ [Some display]"
proof -
  have sf: "storage_filename P (now e) (random e) (originalname pt) =
      (fst (storage_filename P (now e) (random e) (originalname pt)),
       clean_original P (originalname pt))"
    by (simp add: storage_filename_def)
  show ?thesis
    by (simp add: post_upload_stores [OF assms sf])
qed

theorem display_name_recorded_witness:
  "fst (post_upload ascii_platform example_env Map.empty new_db (Some notes_part)) =
     Json 201 (Uploaded 1 notes_key (Some (js ''notes.txt'')) 8 ''File uploaded successfully'')"
proof -
  have "js ''notes.txt'' \<noteq> []" by (simp add: js_def)
  then show ?thesis
    using display_name_recorded [of notes_part new_db example_env ascii_platform Map.empty]
    by (auto simp: storage_filename_notes clean_original_notes)
qed

text \<open>
  C9 as stated fails: uploaded as \<open>notes.txt\<close>, the file is stored under a key that ends
  with the sanitized name \<open>notes.txt.pdf\<close>, while the display name the row records is
  \<open>notes.txt\<close>, which does not end with \<open>.pdf\<close>.
\<close>

theorem display_name_is_not_the_sanitized_name:
  "map original_filename
     (documents (snd (snd (post_upload ascii_platform example_env Map.empty new_db
        (Some notes_part))))) =
     [Some (js ''notes.txt'')] \<and>
   safeOriginal ascii_platform (clean_original ascii_platform (js ''notes.txt'')) =
     js ''notes.txt.pdf'' \<and>
   \<not> ends_with_pdf (js ''notes.txt'')"
proof -
  have sf: "storage_filename ascii_platform (now example_env) (random example_env)
      (originalname notes_part) = (notes_key, js ''notes.txt'')"
    using storage_filename_notes by simp
  have "js ''notes.txt'' \<noteq> []" by (simp add: js_def)
  then have "map original_filename
     (documents (snd (snd (post_upload ascii_platform example_env Map.empty new_db
        (Some notes_part))))) =
     [Some (js ''notes.txt'')]"
    by (subst post_upload_stores [OF _ _ _ _ _ sf]) simp_all
  moreover have "\<not> ends_with_pdf (js ''notes.txt'')"
    by (simp add: ends_with_pdf_def js_def)
  ultimately show ?thesis by (simp add: safeOriginal_notes clean_original_notes)
qed

section \<open>The size limit\<close>

lemma store_and_remove_part_cases:
  "store_and_remove_part e fs p bs =
     (if new_file_removable e then fs(p := None)
      else fs(p \<mapsto> \<lparr>content = take fileSize_limit bs, readable = True, removable = False\<rparr>))"
  by (simp add: store_and_remove_part_def store_part_def written_file_def try_unlink_def
      unlinkSync_def)

text \<open>
  C8, as the code has it. An upload declared \<open>application/pdf\<close> whose part is longer than
  10 MiB (\<open>10 * 1024 * 1024\<close> bytes) is cut off at the limit and answered 400
  \<open>File size exceeds 10MB limit\<close> by the error middleware; the route handler does not run,
  so nothing is verified and the table is as it was; the file written so far is unlinked,
  and no blob is left at its path unless the operating system refuses that unlink. An
  upload declared as anything else is turned away by the filter before anything is
  written, whatever its size: the file system and the table are as they were, and the
  answer is the error middleware's answer to the filter's error, which is not the answer
  of the size limit.
\<close>

theorem upload_too_large:
  "(mimetype pt = js ''application/pdf'' \<and> 10 * 1024 * 1024 < length (bytes pt) \<longrightarrow>
      post_upload P e fs db (Some pt) =
        (Json 400 (Error ''File size exceeds 10MB limit''),
         store_and_remove_part e fs
           (upload_path P (fst (storage_filename P (now e) (random e) (originalname pt))))
           (bytes pt),
         db) \<and>
      (new_file_removable e \<longrightarrow>
         store_and_remove_part e fs
           (upload_path P (fst (storage_filename P (now e) (random e) (originalname pt))))
           (bytes pt)
           (upload_path P (fst (storage_filename P (now e) (random e) (originalname pt)))) =
         None)) \<and>
   (mimetype pt \<noteq> js ''application/pdf'' \<longrightarrow>
      post_upload P e fs db (Some pt) =
        (error_middleware (PlainError ''Only PDF files are allowed (mimetype check)''), fs, db) \<and>
      fst (post_upload P e fs db (Some pt)) \<noteq> Json 400 (Error ''File size exceeds 10MB limit''))"
  by (simp add: post_upload_def upload_single_def fileFilter_def error_middleware_def
      fileSize_limit_def store_and_remove_part_cases split: prod.splits)

text \<open>
  10 MiB and one byte declared \<open>application/pdf\<close>: 400 and no blob when the unlink is allowed.
\<close>

theorem upload_too_large_witness:
  "post_upload ascii_platform example_env Map.empty new_db
     (Some (large_part (js ''application/pdf''))) =
     (Json 400 (Error ''File size exceeds 10MB limit''), Map.empty, new_db)"
  using upload_too_large
    [of "large_part (js ''application/pdf'')" ascii_platform example_env Map.empty new_db]
  by (simp add: store_and_remove_part_cases)

text \<open>
  C8 as stated fails: the same bytes declared \<open>image/png\<close> are turned away by the filter,
  which passes a plain \<open>Error\<close> on; the error middleware answers with the filter's
  message, not with the 400 of the size limit.
\<close>

theorem large_upload_of_another_type:
  "post_upload ascii_platform example_env Map.empty new_db (Some (large_part (js ''image/png''))) =
     (Json 500 (Error ''Only PDF files are allowed (mimetype check)''), Map.empty, new_db)"
  by (simp add: post_upload_def upload_single_def fileFilter_def error_middleware_def js_def)

text \<open>
  When the operating system refuses the unlink, the first 10 MiB of the part stay on disk
  after the 400.
\<close>

lemma large_upload_leaves_partial_blob:
  "fst (snd (post_upload ascii_platform locking_env Map.empty new_db
       (Some (large_part (js ''application/pdf'')))))
     (upload_path ascii_platform
        (fst (storage_filename ascii_platform (now locking_env) (random locking_env)
                (js ''notes.txt'')))) =
     Some \<lparr>content = replicate 10485760 0x25, readable = True, removable = False\<rparr>"
  by (simp add: post_upload_def upload_single_def fileFilter_def fileSize_limit_def
      store_and_remove_part_cases split: prod.splits)

section \<open>Deletion\<close>

lemma find_filter_none: "find (\<lambda>d. doc_id d = i) (filter (\<lambda>d. doc_id d \<noteq> i) rows) = None"
  by (simp add: find_None_iff)

text \<open>
  C5, as the code has it. A lookup that the record store fails is answered 500 and
  nothing changes. When the lookup is answered: an id without a row is answered 404
  \<open>Document not found\<close> and nothing changes. For an id with a row, a blob that is already
  absent is left alone; whatever becomes of the blob (absent, unlinked, or its unlink
  refused), the row deletion is run, the answer is 500 when that statement fails (the
  table is then as it was) and 200 otherwise, with the row gone; and after a 200, a
  second deletion of the same id, its lookup answered, is a 404 as a value.
\<close>

theorem deletion_service:
  "(\<forall>msg. fault1 e = Some msg \<longrightarrow>
      delete_handler e fs db i = (Json 500 (Error (''Database error: '' @ msg)), fs, db)) \<and>
   (fault1 e = None \<longrightarrow>
      (find (\<lambda>d. doc_id d = i) (documents db) = None \<longrightarrow>
         delete_handler e fs db i = (Json 404 (Error ''Document not found''), fs, db)) \<and>
      (\<forall>row. find (\<lambda>d. doc_id d = i) (documents db) = Some row \<longrightarrow>
         (\<not> existsSync fs (filepath row) \<longrightarrow> remove_blob fs row = fs) \<and>
         (\<forall>msg. fault2 e = Some msg \<longrightarrow>
            delete_handler e fs db i =
              (Json 500 (Error (''Database error: '' @ msg)), remove_blob fs row, db)) \<and>
         (fault2 e = None \<longrightarrow>
            delete_handler e fs db i =
              (Json 200 (Message ''Document deleted successfully''), remove_blob fs row,
               db\<lparr>documents := filter (\<lambda>d. doc_id d \<noteq> i) (documents db)\<rparr>) \<and>
            (\<forall>e2 fs2. fault1 e2 = None \<longrightarrow>
               delete_handler e2 fs2
                   (db\<lparr>documents := filter (\<lambda>d. doc_id d \<noteq> i) (documents db)\<rparr>) i =
                 (Json 404 (Error ''Document not found''), fs2,
                  db\<lparr>documents := filter (\<lambda>d. doc_id d \<noteq> i) (documents db)\<rparr>)))))"
  by (auto simp: delete_handler_def db_get_def db_delete_def remove_blob_def find_filter_none)

text \<open>
  A row whose blob cannot be unlinked: the first deletion is a 200 and removes the row,
  the blob stays; the second is a 404.
\<close>

theorem deletion_service_witness:
  "delete_handler example_env [blob_path \<mapsto> gif_blob False]
     \<lparr>has_original_filename = True, documents = [example_row 1 1700000000], last_id = 1\<rparr> 1 =
     (Json 200 (Message ''Document deleted successfully''), [blob_path \<mapsto> gif_blob False],
      \<lparr>has_original_filename = True, documents = [], last_id = 1\<rparr>) \<and>
   delete_handler example_env [blob_path \<mapsto> gif_blob False]
     \<lparr>has_original_filename = True, documents = [], last_id = 1\<rparr> 1 =
     (Json 404 (Error ''Document not found''), [blob_path \<mapsto> gif_blob False],
      \<lparr>has_original_filename = True, documents = [], last_id = 1\<rparr>)"
  using deletion_service
    [where e = example_env and i = 1 and fs = "[blob_path \<mapsto> gif_blob False]"
       and db = "\<lparr>has_original_filename = True, documents = [example_row 1 1700000000],
                 last_id = 1\<rparr>"]
  by (simp add: remove_blob_def existsSync_def try_unlink_def unlinkSync_def)

text \<open>
  C5 as stated fails: the row exists and its deletion is never run, let alone fails, yet
  the answer is 500, because the lookup failed.
\<close>

theorem failed_lookup_is_a_500:
  "delete_handler busy_env [blob_path \<mapsto> pdf_blob]
     \<lparr>has_original_filename = True, documents = [example_row 1 1700000000], last_id = 1\<rparr> 1 =
     (Json 500 (Error ''Database error: SQLITE_BUSY: database is locked''),
      [blob_path \<mapsto> pdf_blob],
      \<lparr>has_original_filename = True, documents = [example_row 1 1700000000], last_id = 1\<rparr>)"
  by (simp add: delete_handler_def db_get_def)

section \<open>Download\<close>

text \<open>
  C6, as the code has it. A lookup that the record store fails is answered 500. When the
  lookup is answered: no row for the id is a 404 \<open>Document not found\<close>; a row whose blob
  does not exist is a 404 \<open>File not found on server\<close> (the handler returns a response only:
  it changes neither store); otherwise the blob at the row's path is sent under the
  display name, or under the storage key when the row records no display name; a blob
  that cannot be opened is answered 500 \<open>Error downloading file\<close>, and a transfer that
  breaks after its headers is left broken.
\<close>

theorem download_service:
  "(\<forall>msg. fault1 e = Some msg \<longrightarrow>
      download_handler e fs db i = Json 500 (Error (''Database error: '' @ msg))) \<and>
   (fault1 e = None \<longrightarrow>
      (find (\<lambda>d. doc_id d = i) (documents db) = None \<longrightarrow>
         download_handler e fs db i = Json 404 (Error ''Document not found'')) \<and>
      (\<forall>row. find (\<lambda>d. doc_id d = i) (documents db) = Some row \<longrightarrow>
         (fs (filepath row) = None \<longrightarrow>
            download_handler e fs db i = Json 404 (Error ''File not found on server'')) \<and>
         (\<forall>f. fs (filepath row) = Some f \<longrightarrow>
            (readable f \<and> \<not> aborted e \<longrightarrow>
               download_handler e fs db i = Download (filepath row) (downloadName row)) \<and>
            (\<not> readable f \<longrightarrow>
               download_handler e fs db i = Json 500 (Error ''Error downloading file'')) \<and>
            (readable f \<and> aborted e \<longrightarrow>
               download_handler e fs db i = Truncated (filepath row) (downloadName row))) \<and>
         (original_filename row = None \<longrightarrow> downloadName row = filename row) \<and>
         (\<forall>s. original_filename row = Some s \<longrightarrow> s \<noteq> [] \<longrightarrow> downloadName row = s)))"
  by (auto simp: download_handler_def db_get_def downloadName_def existsSync_def
      res_download_def download_callback_def)

theorem download_service_witness:
  "download_handler example_env [blob_path \<mapsto> pdf_blob]
     \<lparr>has_original_filename = True, documents = [example_row 1 1700000000], last_id = 1\<rparr> 1 =
     Download blob_path (js ''a.pdf'') \<and>
   download_handler example_env Map.empty
     \<lparr>has_original_filename = True, documents = [example_row 1 1700000000], last_id = 1\<rparr> 1 =
     Json 404 (Error ''File not found on server'') \<and>
   download_handler example_env [blob_path \<mapsto> pdf_blob]
     \<lparr>has_original_filename = True, documents = [example_row 1 1700000000], last_id = 1\<rparr> 2 =
     Json 404 (Error ''Document not found'') \<and>
   download_handler example_env
     [blob_path \<mapsto> \<lparr>content = pdf_bytes, readable = False, removable = True\<rparr>]
     \<lparr>has_original_filename = True, documents = [example_row 1 1700000000], last_id = 1\<rparr> 1 =
     Json 500 (Error ''Error downloading file'') \<and>
   download_handler breaking_env [blob_path \<mapsto> pdf_blob]
     \<lparr>has_original_filename = True, documents = [example_row 1 1700000000], last_id = 1\<rparr> 1 =
     Truncated blob_path (js ''a.pdf'')"
  using download_service
    [where e = example_env and i = 1 and fs = "[blob_path \<mapsto> pdf_blob]"
       and db = "\<lparr>has_original_filename = True, documents = [example_row 1 1700000000],
                 last_id = 1\<rparr>"]
    download_service
    [where e = example_env and i = 1 and fs = Map.empty
       and db = "\<lparr>has_original_filename = True, documents = [example_row 1 1700000000],
                 last_id = 1\<rparr>"]
    download_service
    [where e = example_env and i = 2 and fs = "[blob_path \<mapsto> pdf_blob]"
       and db = "\<lparr>has_original_filename = True, documents = [example_row 1 1700000000],
                 last_id = 1\<rparr>"]
    download_service
    [where e = example_env and i = 1
       and fs = "[blob_path \<mapsto> \<lparr>content = pdf_bytes, readable = False, removable = True\<rparr>]"
       and db = "\<lparr>has_original_filename = True, documents = [example_row 1 1700000000],
                 last_id = 1\<rparr>"]
    download_service
    [where e = breaking_env and i = 1 and fs = "[blob_path \<mapsto> pdf_blob]"
       and db = "\<lparr>has_original_filename = True, documents = [example_row 1 1700000000],
                 last_id = 1\<rparr>"]
  by (simp add: downloadName_def js_def)

text \<open>
  C6 as stated fails: the row exists and its blob exists, yet the answer is 500 and
  nothing is streamed, because the lookup failed.
\<close>

theorem failed_lookup_download_is_a_500:
  "download_handler busy_env [blob_path \<mapsto> pdf_blob]
     \<lparr>has_original_filename = True, documents = [example_row 1 1700000000], last_id = 1\<rparr> 1 =
     Json 500 (Error ''Database error: SQLITE_BUSY: database is locked'')"
  by (simp add: download_handler_def db_get_def)

section \<open>The listing\<close>

lemma mset_insert_desc: "mset (insert_desc d es) = add_mset d (mset es)"
  by (induction es) auto

lemma mset_order_by: "mset (order_by_created_at_desc rows) = mset rows"
  by (induction rows) (auto simp: order_by_created_at_desc_def mset_insert_desc)

lemma set_insert_desc: "set (insert_desc d es) = insert d (set es)"
  by (induction es) auto

lemma sorted_insert_desc:
  "sorted_wrt (\<lambda>a b. created_at b \<le> created_at a) es \<Longrightarrow>
   sorted_wrt (\<lambda>a b. created_at b \<le> created_at a) (insert_desc d es)"
  by (induction es) (auto simp: set_insert_desc)

lemma sorted_order_by:
  "sorted_wrt (\<lambda>a b. created_at b \<le> created_at a) (order_by_created_at_desc rows)"
  by (induction rows) (auto simp: order_by_created_at_desc_def sorted_insert_desc)

lemma filter_insert_desc:
  "filter (\<lambda>x. created_at x = t) (insert_desc d es) =
     (if created_at d = t then d # filter (\<lambda>x. created_at x = t) es
      else filter (\<lambda>x. created_at x = t) es)"
  by (induction es) auto

lemma filter_order_by:
  "filter (\<lambda>x. created_at x = t) (order_by_created_at_desc rows) =
   filter (\<lambda>x. created_at x = t) rows"
  by (induction rows) (auto simp: order_by_created_at_desc_def filter_insert_desc)

text \<open>
  C7, as the code has it. When the record store answers the query, the listing is a 200
  with all the rows of the table, each once, ordered by \<open>created_at\<close> descending; rows with
  equal \<open>created_at\<close> come in the order the record store keeps them (for each timestamp,
  the rows of that timestamp are listed in table order), the statement naming no second
  sort key.
\<close>

theorem documents_listed_newest_first:
  assumes "fault1 e = None"
  shows "list_handler e db = Json 200 (Rows (order_by_created_at_desc (documents db))) \<and>
         mset (order_by_created_at_desc (documents db)) = mset (documents db) \<and>
         sorted_wrt (\<lambda>a b. created_at b \<le> created_at a)
           (order_by_created_at_desc (documents db)) \<and>
         (\<forall>t. filter (\<lambda>x. created_at x = t) (order_by_created_at_desc (documents db)) =
                filter (\<lambda>x. created_at x = t) (documents db))"
  using assms
  by (simp add: list_handler_def db_all_def mset_order_by sorted_order_by filter_order_by)

theorem documents_listed_newest_first_witness:
  "list_handler example_env
     \<lparr>has_original_filename = True,
      documents = [example_row 1 1700000000, example_row 2 1700000000, example_row 3 1700000009],
      last_id = 3\<rparr> =
     Json 200 (Rows [example_row 3 1700000009, example_row 1 1700000000, example_row 2 1700000000])"
  using documents_listed_newest_first
    [of example_env
        "\<lparr>has_original_filename = True,
          documents = [example_row 1 1700000000, example_row 2 1700000000, example_row 3 1700000009],
          last_id = 3\<rparr>"]
  by (simp add: order_by_created_at_desc_def)

text \<open>
  C7 as stated fails: two rows inserted in the same second are listed with the smaller id
  first.
\<close>

theorem equal_timestamps_listed_by_ascending_id:
  "list_handler example_env
     \<lparr>has_original_filename = True,
      documents = [example_row 1 1700000000, example_row 2 1700000000], last_id = 2\<rparr> =
     Json 200 (Rows [example_row 1 1700000000, example_row 2 1700000000]) \<and>
   \<not> newest_first_ties_by_id_desc [example_row 1 1700000000, example_row 2 1700000000]"
  by (simp add: list_handler_def db_all_def order_by_created_at_desc_def
      newest_first_ties_by_id_desc_def)

section \<open>The name a download is served under\<close>

lemma storedName_nonempty: "fst (storage_filename P ms r name) \<noteq> []"
  by (simp add: storage_filename_def uniquePrefix_def to_decimal_nonempty)

lemma insert_row_named:
  "named db \<Longrightarrow> fname \<noteq> [] \<Longrightarrow> insert_row db ts fname oname fpath fsize = (x, d) \<Longrightarrow>
   named d"
  by (auto simp: named_def insert_row_def)

lemma upload_handler_named:
  assumes "named db" and "\<And>f. req_file req = Some f \<Longrightarrow> req_filename f \<noteq> []"
    and "upload_handler e fs db req = (resp, fs', db')"
  shows "named db'"
proof (cases "req_file req")
  case None
  with assms show ?thesis by (simp add: upload_handler_def)
next
  case (Some f)
  then have n: "req_filename f \<noteq> []" by (rule assms(2))
  have a: "\<And>oname x d.
      insert_row db (timestamp e) (req_filename f) oname (req_path f) (req_size f) = (x, d) \<Longrightarrow>
      named d"
    using assms(1) n by (rule insert_row_named)
  from assms(3) Some show ?thesis
    using assms(1)
    by (auto simp: upload_handler_def db_insert_full_def db_insert_reduced_def
        split: if_splits sum.splits option.splits prod.splits dest: a)
qed

lemma post_upload_named:
  assumes "named db" and "post_upload P e fs db p = (resp, fs', db')"
  shows "named db'"
proof (cases "upload_single P e fs p")
  case (Pair res fs1)
  show ?thesis
  proof (cases res)
    case (Inl err)
    with Pair assms show ?thesis by (simp add: post_upload_def)
  next
    case (Inr req)
    have u: "upload_handler e fs1 db req = (resp, fs', db')"
      using assms(2) Pair Inr by (simp add: post_upload_def)
    have "\<And>f. req_file req = Some f \<Longrightarrow> req_filename f \<noteq> []"
      using Pair Inr storedName_nonempty [of P "now e" "random e"]
      by (auto simp: upload_single_def split: option.splits if_splits prod.splits)
        (metis fst_conv)
    with assms(1) show ?thesis using u by (rule upload_handler_named)
  qed
qed

lemma delete_handler_named:
  assumes "named db" and "delete_handler e fs db i = (resp, fs', db')"
  shows "named db'"
  using assms
  by (auto simp: delete_handler_def db_delete_def db_get_def named_def
      split: sum.splits option.splits)

lemma reachable_named: "reachable P st \<Longrightarrow> named (snd st)"
proof (induction rule: reachable.induct)
  case (initial db fs)
  then show ?case by (simp add: named_def)
next
  case (uploaded fs db e p resp fs' db')
  then show ?case using post_upload_named by fastforce
next
  case (deleted fs db e i resp fs' db')
  then show ?case using delete_handler_named by fastforce
next
  case (disturbed fs db fs')
  then show ?case by simp
qed

text \<open>
  C10. When the lookup is answered with a row whose blob can be sent, the blob is sent
  under \<open>downloadName\<close>. For every row, in any table: that name is the storage key
  whenever the recorded display name is null or the empty string, and it is empty only
  if the storage key itself is empty; no storage key is empty in a state the server
  reaches from an empty table.
\<close>

theorem download_name_never_empty:
  assumes "fault1 e = None"
    and "find (\<lambda>d. doc_id d = i) (documents db) = Some row"
    and "fs (filepath row) = Some f" and "readable f" and "\<not> aborted e"
  shows "download_handler e fs db i = Download (filepath row) (downloadName row) \<and>
         (original_filename row = None \<or> original_filename row = Some [] \<longrightarrow>
            downloadName row = filename row) \<and>
         (filename row \<noteq> [] \<longrightarrow> downloadName row \<noteq> []) \<and>
         (reachable P (fs, db) \<longrightarrow> downloadName row \<noteq> [])"
proof -
  have served: "download_handler e fs db i = Download (filepath row) (downloadName row)"
    using assms
    by (simp add: download_handler_def db_get_def existsSync_def res_download_def
        download_callback_def)
  have fallback: "original_filename row = None \<or> original_filename row = Some [] \<longrightarrow>
      downloadName row = filename row"
    by (auto simp: downloadName_def)
  have nonempty: "filename row \<noteq> [] \<longrightarrow> downloadName row \<noteq> []"
    by (auto simp: downloadName_def split: option.splits)
  have "reachable P (fs, db) \<longrightarrow> filename row \<noteq> []"
  proof
    assume "reachable P (fs, db)"
    then have "named db" using reachable_named by fastforce
    moreover have "row \<in> set (documents db)"
      using assms(2) by (auto simp: find_Some_iff in_set_conv_nth)
    ultimately show "filename row \<noteq> []" by (simp add: named_def)
  qed
  with served fallback nonempty show ?thesis by blast
qed

text \<open>
  A table with a row whose display name is the empty string and a row whose display
  name is null: both are served under the storage key.
\<close>

theorem download_name_never_empty_witness:
  "download_handler example_env [blob_path \<mapsto> pdf_blob]
     \<lparr>has_original_filename = True,
      documents = [unnamed_row 1 (Some []), unnamed_row 2 None], last_id = 2\<rparr> 1 =
     Download blob_path (js ''1-2-a.pdf'') \<and>
   download_handler example_env [blob_path \<mapsto> pdf_blob]
     \<lparr>has_original_filename = True,
      documents = [unnamed_row 1 (Some []), unnamed_row 2 None], last_id = 2\<rparr> 2 =
     Download blob_path (js ''1-2-a.pdf'') \<and>
   js ''1-2-a.pdf'' \<noteq> []"
  using download_name_never_empty
    [where e = example_env and i = 1 and fs = "[blob_path \<mapsto> pdf_blob]" and f = pdf_blob
       and row = "unnamed_row 1 (Some [])"
       and db = "\<lparr>has_original_filename = True,
                   documents = [unnamed_row 1 (Some []), unnamed_row 2 None], last_id = 2\<rparr>"]
    download_name_never_empty
    [where e = example_env and i = 2 and fs = "[blob_path \<mapsto> pdf_blob]" and f = pdf_blob
       and row = "unnamed_row 2 None"
       and db = "\<lparr>has_original_filename = True,
                   documents = [unnamed_row 1 (Some []), unnamed_row 2 None], last_id = 2\<rparr>"]
  by (simp add: js_def)

end
